theory Spec2Isabelle
  imports Complex_Main "HOL-Library.Word"
begin

section \<open>Binary32 arithmetic\<close>

text \<open>
  \<^verbatim>\<open>path_converter.cpp\<close> computes in C++ \<^verbatim>\<open>float\<close>. A \<open>float\<close> is a finite
  value (the real number it denotes), an infinity or NaN. Every operation rounds its
  exact result to the nearest binary32 value, ties to the even significand, with gradual
  underflow; a result beyond the largest finite value becomes an infinity. Each
  operation of the source is rounded on its own (no wider intermediate precision and
  no fused multiply-add), and \<^verbatim>\<open>hypotf\<close> returns the rounded exact result. The
  two zeros are not distinguished: a divisor zero counts as positive.
\<close>

datatype float = Finite real | PlusInf | MinusInf | NaN

definition pow2 :: "int \<Rightarrow> real" where
  "pow2 k = (if 0 \<le> k then 2 ^ nat k else 1 / 2 ^ nat (- k))"

definition round_to_even :: "real \<Rightarrow> int" where
  "round_to_even m =
     (let f = \<lfloor>m\<rfloor>
      in if m - of_int f < 1 / 2 then f
         else if 1 / 2 < m - of_int f then f + 1
         else if even f then f else f + 1)"

text \<open>
  The exponent of the unit in the last place of \<open>r\<close>: 23 below the binary exponent
  of \<open>r\<close>, and \<open>- 149\<close> throughout the subnormal range.
\<close>

definition ulp_exponent :: "real \<Rightarrow> int" where
  "ulp_exponent r = max \<lfloor>log 2 \<bar>r\<bar>\<rfloor> (- 126) - 23"

definition largest_float :: real where
  "largest_float = (2 ^ 24 - 1) * 2 ^ 104"

definition round32 :: "real \<Rightarrow> float" where
  "round32 r =
     (if r = 0 then Finite 0
      else let u = pow2 (ulp_exponent r);
               v = of_int (round_to_even (r / u)) * u
           in if largest_float < v then PlusInf
              else if v < - largest_float then MinusInf
              else Finite v)"

fun fadd :: "float \<Rightarrow> float \<Rightarrow> float" where
  "fadd (Finite a) (Finite b) = round32 (a + b)"
| "fadd NaN _ = NaN"
| "fadd _ NaN = NaN"
| "fadd PlusInf MinusInf = NaN"
| "fadd MinusInf PlusInf = NaN"
| "fadd PlusInf _ = PlusInf"
| "fadd _ PlusInf = PlusInf"
| "fadd MinusInf _ = MinusInf"
| "fadd _ MinusInf = MinusInf"

fun fsub :: "float \<Rightarrow> float \<Rightarrow> float" where
  "fsub (Finite a) (Finite b) = round32 (a - b)"
| "fsub NaN _ = NaN"
| "fsub _ NaN = NaN"
| "fsub PlusInf PlusInf = NaN"
| "fsub MinusInf MinusInf = NaN"
| "fsub PlusInf _ = PlusInf"
| "fsub _ PlusInf = MinusInf"
| "fsub MinusInf _ = MinusInf"
| "fsub _ MinusInf = PlusInf"

definition signed_inf :: "bool \<Rightarrow> float" where
  "signed_inf positive = (if positive then PlusInf else MinusInf)"

fun fmul :: "float \<Rightarrow> float \<Rightarrow> float" where
  "fmul (Finite a) (Finite b) = round32 (a * b)"
| "fmul NaN _ = NaN"
| "fmul _ NaN = NaN"
| "fmul PlusInf (Finite b) = (if b = 0 then NaN else signed_inf (0 < b))"
| "fmul MinusInf (Finite b) = (if b = 0 then NaN else signed_inf (b < 0))"
| "fmul (Finite a) PlusInf = (if a = 0 then NaN else signed_inf (0 < a))"
| "fmul (Finite a) MinusInf = (if a = 0 then NaN else signed_inf (a < 0))"
| "fmul PlusInf PlusInf = PlusInf"
| "fmul MinusInf MinusInf = PlusInf"
| "fmul PlusInf MinusInf = MinusInf"
| "fmul MinusInf PlusInf = MinusInf"

fun fdiv :: "float \<Rightarrow> float \<Rightarrow> float" where
  "fdiv (Finite a) (Finite b) =
     (if b = 0 then (if a = 0 then NaN else signed_inf (0 < a)) else round32 (a / b))"
| "fdiv NaN _ = NaN"
| "fdiv _ NaN = NaN"
| "fdiv (Finite a) PlusInf = Finite 0"
| "fdiv (Finite a) MinusInf = Finite 0"
| "fdiv PlusInf (Finite b) = signed_inf (0 \<le> b)"
| "fdiv MinusInf (Finite b) = signed_inf (b < 0)"
| "fdiv PlusInf PlusInf = NaN"
| "fdiv PlusInf MinusInf = NaN"
| "fdiv MinusInf PlusInf = NaN"
| "fdiv MinusInf MinusInf = NaN"

text \<open>
  \<^verbatim>\<open>hypotf\<close> of libm: the rounded Euclidean norm, infinite as soon as one argument
  is.
\<close>

fun hypotf :: "float \<Rightarrow> float \<Rightarrow> float" where
  "hypotf (Finite a) (Finite b) = round32 (sqrt (a\<^sup>2 + b\<^sup>2))"
| "hypotf PlusInf _ = PlusInf"
| "hypotf MinusInf _ = PlusInf"
| "hypotf _ PlusInf = PlusInf"
| "hypotf _ MinusInf = PlusInf"
| "hypotf NaN _ = NaN"
| "hypotf _ NaN = NaN"

fun fceil :: "float \<Rightarrow> float" where
  "fceil (Finite r) = Finite (of_int \<lceil>r\<rceil>)"
| "fceil PlusInf = PlusInf"
| "fceil MinusInf = MinusInf"
| "fceil NaN = NaN"

text \<open>
  The conversions between \<^verbatim>\<open>float\<close> and \<^verbatim>\<open>unsigned int\<close>. Towards the integer
  the value is truncated; C++ defines the result only when the truncated value lies in
  \<open>0 \<dots> 2^32 - 1\<close>. Outside that range the model keeps the low 32 bits of a finite
  value and gives 0 for an infinity or NaN, as the usual 64-bit conversion instruction
  does; the theorems about the emitted points assume the value in range. Towards
  \<^verbatim>\<open>float\<close> the integer is rounded.
\<close>

fun float_to_uint :: "float \<Rightarrow> 32 word" where
  "float_to_uint (Finite r) = word_of_int (if 0 \<le> r then \<lfloor>r\<rfloor> else \<lceil>r\<rceil>)"
| "float_to_uint PlusInf = 0"
| "float_to_uint MinusInf = 0"
| "float_to_uint NaN = 0"

definition uint_to_float :: "32 word \<Rightarrow> float" where
  "uint_to_float w = round32 (real (unat w))"

section \<open>Data model of the route graph\<close>

text \<open>
  The types of \<^verbatim>\<open>nav2_route/types.hpp\<close> as the code of
  \<^verbatim>\<open>path_converter.cpp\<close> and the edge scorer tests use them. The coordinates of
  the graph are finite \<^verbatim>\<open>float\<close> values, kept as the real numbers they denote;
  poses hold what the float operations produce. Pointers to nodes and edges are
  replaced by the values they point to; a pointer that may be null is an
  \<open>option\<close>.
\<close>

datatype MetaValue = MFloat real | MInt int | MString string

type_synonym Metadata = "string \<rightharpoonup> MetaValue"

record Coordinates =
  coord_x :: real
  coord_y :: real

record Node =
  nodeid :: nat
  coords :: Coordinates
  node_metadata :: Metadata

record DirectionalEdge =
  edgeid :: nat
  edge_start :: Node
  edge_end :: Node
  edge_metadata :: Metadata

record Route =
  start_node :: Node
  edges :: "DirectionalEdge list"

record ReroutingState =
  curr_edge :: "DirectionalEdge option"
  closest_pt_on_edge :: Coordinates

record PoseStamped =
  position_x :: float
  position_y :: float

record Path =
  stamp :: nat
  frame_id :: string
  poses :: "PoseStamped list"

section \<open>PathConverter\<close>

text \<open>
  \<^verbatim>\<open>utils::toMsg(x, y)\<close> builds the pose that carries the point \<open>(x, y)\<close>.
\<close>

definition toMsg :: "float \<Rightarrow> float \<Rightarrow> PoseStamped" where
  "toMsg px py = \<lparr>position_x = px, position_y = py\<rparr>"

text \<open>
  The \<^verbatim>\<open>while (pt_ctr < num_pts - 1)\<close> loop of \<^verbatim>\<open>interpolateEdge\<close>. Both
  counters are \<^verbatim>\<open>unsigned int\<close>, so \<open>num_pts - 1\<close> wraps around to
  \<open>2^32 - 1\<close> when \<open>num_pts = 0\<close>.
\<close>

function interpolate_loop ::
  "float \<Rightarrow> float \<Rightarrow> float \<Rightarrow> 32 word \<Rightarrow> float \<Rightarrow> float \<Rightarrow> 32 word \<Rightarrow> PoseStamped list
     \<Rightarrow> PoseStamped list" where
  "interpolate_loop ux uy iterpolated_dist num_pts px py pt_ctr ps =
     (if pt_ctr < num_pts - 1
      then interpolate_loop ux uy iterpolated_dist num_pts
             (fadd px (fmul ux iterpolated_dist)) (fadd py (fmul uy iterpolated_dist))
             (pt_ctr + 1)
             (ps @ [toMsg (fadd px (fmul ux iterpolated_dist))
                          (fadd py (fmul uy iterpolated_dist))])
      else ps)"
  by pat_completeness auto
termination
proof (relation "measure (\<lambda>(ux, uy, d, num_pts, px, py, pt_ctr, ps).
                            unat (num_pts - 1) - unat pt_ctr)")
  show "wf (measure (\<lambda>(ux :: float, uy :: float, d :: float, num_pts :: 32 word, px :: float,
                        py :: float, pt_ctr :: 32 word, ps :: PoseStamped list).
                            unat (num_pts - 1) - unat pt_ctr))"
    by simp
next
  fix ux uy iterpolated_dist :: float and num_pts pt_ctr :: "32 word"
    and px py :: float and ps :: "PoseStamped list"
  assume lt: "pt_ctr < num_pts - 1"
  then have bound: "unat pt_ctr < unat (num_pts - 1)"
    by (simp add: word_less_nat_alt)
  moreover have "unat (num_pts - 1) < 2 ^ 32"
    using unsigned_less [of "num_pts - 1"] by simp
  ultimately have "unat pt_ctr + 1 < 2 ^ 32"
    by simp
  then have "unat (pt_ctr + 1) = Suc (unat pt_ctr)"
    by (simp add: unat_word_ariths)
  with bound show
    "((ux, uy, iterpolated_dist, num_pts, fadd px (fmul ux iterpolated_dist),
       fadd py (fmul uy iterpolated_dist), pt_ctr + 1,
       ps @ [toMsg (fadd px (fmul ux iterpolated_dist)) (fadd py (fmul uy iterpolated_dist))]),
      (ux, uy, iterpolated_dist, num_pts, px, py, pt_ctr, ps))
     \<in> measure (\<lambda>(ux, uy, d, num_pts, px, py, pt_ctr, ps). unat (num_pts - 1) - unat pt_ctr)"
    by simp
qed

text \<open>
  \<^verbatim>\<open>PathConverter::interpolateEdge\<close>, with the member \<^verbatim>\<open>density_\<close> as first
  argument and the output vector passed in and returned.
\<close>

definition interpolateEdge ::
  "float \<Rightarrow> float \<Rightarrow> float \<Rightarrow> float \<Rightarrow> float \<Rightarrow> PoseStamped list \<Rightarrow> PoseStamped list" where
  "interpolateEdge density x0 y0 x1 y1 ps =
     (let mag = hypotf (fsub x1 x0) (fsub y1 y0);
          num_pts = float_to_uint (fceil (fdiv mag density));
          iterpolated_dist = fdiv mag (uint_to_float num_pts);
          ux = fdiv (fsub x1 x0) mag;
          uy = fdiv (fsub y1 y0) mag
      in interpolate_loop ux uy iterpolated_dist num_pts x0 y0 0 (ps @ [toMsg x0 y0]))"

text \<open>
  \<^verbatim>\<open>PathConverter::densify\<close>. The loop over \<^verbatim>\<open>route.edges\<close> is a left fold
  that threads \<^verbatim>\<open>path.poses\<close>; publishing the path has no effect on the
  returned value.
\<close>

definition interpolate_route_edge :: "float \<Rightarrow> PoseStamped list \<Rightarrow> DirectionalEdge \<Rightarrow> PoseStamped list" where
  "interpolate_route_edge density ps edge =
     interpolateEdge density
       (Finite (coord_x (coords (edge_start edge)))) (Finite (coord_y (coords (edge_start edge))))
       (Finite (coord_x (coords (edge_end edge)))) (Finite (coord_y (coords (edge_end edge)))) ps"

definition densify :: "float \<Rightarrow> Route \<Rightarrow> ReroutingState \<Rightarrow> string \<Rightarrow> nat \<Rightarrow> Path" where
  "densify density route rerouting_info frame now =
     (let ps0 = (case curr_edge rerouting_info of
                   Some e \<Rightarrow>
                     interpolateEdge density
                       (Finite (coord_x (closest_pt_on_edge rerouting_info)))
                       (Finite (coord_y (closest_pt_on_edge rerouting_info)))
                       (Finite (coord_x (coords (edge_end e))))
                       (Finite (coord_y (coords (edge_end e)))) []
                 | None \<Rightarrow> []);
          ps1 = foldl (interpolate_route_edge density) ps0 (edges route);
          ps2 = (if edges route = []
                 then ps1 @ [toMsg (Finite (coord_x (coords (start_node route))))
                                   (Finite (coord_y (coords (start_node route))))]
                 else ps1 @ [toMsg (Finite (coord_x (coords (edge_end (last (edges route))))))
                                   (Finite (coord_y (coords (edge_end (last (edges route))))))])
      in \<lparr>stamp = now, frame_id = frame, poses = ps2\<rparr>)"

text \<open>
  \<open>walk step p k\<close> is the coordinate reached from \<open>p\<close> by \<open>k\<close> float additions of
  \<open>step\<close>, and \<open>march\<close> the pose that the loop of \<^verbatim>\<open>interpolateEdge\<close> reaches
  after \<open>k\<close> iterations. \<open>spaced_points\<close> is the result the interpolation is to
  give, in the arithmetic of the code: \<open>n\<close> points, with \<open>n\<close> the ceiling of the
  rounded quotient of the segment's length by the density, from the start in steps
  of the rounded step length along the rounded unit direction vector;
  \<open>step_vector\<close> is that step, the pair of products of the components of the unit
  vector with the step length.
\<close>

fun walk :: "float \<Rightarrow> float \<Rightarrow> nat \<Rightarrow> float" where
  "walk step p 0 = p"
| "walk step p (Suc k) = fadd (walk step p k) step"

definition march :: "float \<Rightarrow> float \<Rightarrow> float \<Rightarrow> float \<Rightarrow> float \<Rightarrow> nat \<Rightarrow> PoseStamped" where
  "march ux uy d px py k = toMsg (walk (fmul ux d) px k) (walk (fmul uy d) py k)"

definition spaced_points :: "float \<Rightarrow> float \<Rightarrow> float \<Rightarrow> float \<Rightarrow> float \<Rightarrow> PoseStamped list" where
  "spaced_points density x0 y0 x1 y1 =
     (let segmentLength = hypotf (fsub x1 x0) (fsub y1 y0);
          n = float_to_uint (fceil (fdiv segmentLength density));
          step = fdiv segmentLength (uint_to_float n);
          ux = fdiv (fsub x1 x0) segmentLength;
          uy = fdiv (fsub y1 y0) segmentLength
      in map (march ux uy step x0 y0) [0..<unat n])"

definition step_vector :: "float \<Rightarrow> float \<Rightarrow> float \<Rightarrow> float \<Rightarrow> float \<Rightarrow> float \<times> float" where
  "step_vector density x0 y0 x1 y1 =
     (let segmentLength = hypotf (fsub x1 x0) (fsub y1 y0);
          n = float_to_uint (fceil (fdiv segmentLength density));
          step = fdiv segmentLength (uint_to_float n);
          ux = fdiv (fsub x1 x0) segmentLength;
          uy = fdiv (fsub y1 y0) segmentLength
      in (fmul ux step, fmul uy step))"

text \<open>
  The interpolation as the specification words it, over the real numbers:
  \<open>n = ceil(segmentLength / density)\<close> points, the \<open>k\<close>-th one at distance
  \<open>k * (segmentLength / n)\<close> from the start along the unit direction vector, for
  \<open>k = 0, \<dots>, n - 1\<close>. \<open>point_dist\<close> is the Euclidean distance of two points.
  \<open>exact r\<close> says that \<open>r\<close> is a binary32 value, so that an operation whose exact
  result is \<open>r\<close> does not round; \<open>no_rounding\<close> says so of every intermediate
  result of the interpolation.
\<close>

definition euclid :: "real \<Rightarrow> real \<Rightarrow> real" where
  "euclid a b = sqrt (a\<^sup>2 + b\<^sup>2)"

definition segment_length :: "real \<Rightarrow> real \<Rightarrow> real \<Rightarrow> real \<Rightarrow> real" where
  "segment_length a0 b0 a1 b1 = euclid (a1 - a0) (b1 - b0)"

definition point_count :: "real \<Rightarrow> real \<Rightarrow> real \<Rightarrow> real \<Rightarrow> real \<Rightarrow> nat" where
  "point_count density a0 b0 a1 b1 = nat \<lceil>segment_length a0 b0 a1 b1 / density\<rceil>"

definition evenly_spaced :: "real \<Rightarrow> real \<Rightarrow> real \<Rightarrow> real \<Rightarrow> real \<Rightarrow> (real \<times> real) list" where
  "evenly_spaced density a0 b0 a1 b1 =
     (let segmentLength = segment_length a0 b0 a1 b1;
          n = point_count density a0 b0 a1 b1;
          step = segmentLength / real n
      in map (\<lambda>k. (a0 + real k * step * ((a1 - a0) / segmentLength),
                    b0 + real k * step * ((b1 - b0) / segmentLength))) [0..<n])"

definition point_dist :: "real \<times> real \<Rightarrow> real \<times> real \<Rightarrow> real" where
  "point_dist p q = euclid (fst q - fst p) (snd q - snd p)"

definition point_pose :: "real \<times> real \<Rightarrow> PoseStamped" where
  "point_pose p = toMsg (Finite (fst p)) (Finite (snd p))"

definition exact :: "real \<Rightarrow> bool" where
  "exact r \<longleftrightarrow> round32 r = Finite r"

definition no_rounding :: "real \<Rightarrow> real \<Rightarrow> real \<Rightarrow> real \<Rightarrow> real \<Rightarrow> bool" where
  "no_rounding density a0 b0 a1 b1 =
     (let segmentLength = segment_length a0 b0 a1 b1;
          n = point_count density a0 b0 a1 b1;
          step = segmentLength / real n;
          ux = (a1 - a0) / segmentLength;
          uy = (b1 - b0) / segmentLength
      in exact (a1 - a0) \<and> exact (b1 - b0) \<and> exact segmentLength
         \<and> exact (segmentLength / density) \<and> exact (real n) \<and> exact step
         \<and> exact ux \<and> exact uy \<and> exact (ux * step) \<and> exact (uy * step)
         \<and> list_all (\<lambda>k. exact (a0 + real k * (ux * step)) \<and> exact (b0 + real k * (uy * step)))
              [0..<n])"

text \<open>Nodes and edges without metadata, as the tests build them.\<close>

definition example_node :: "nat \<Rightarrow> real \<Rightarrow> real \<Rightarrow> Node" where
  "example_node i px py =
     \<lparr>nodeid = i, coords = \<lparr>coord_x = px, coord_y = py\<rparr>, node_metadata = Map.empty\<rparr>"

definition example_edge :: "nat \<Rightarrow> Node \<Rightarrow> Node \<Rightarrow> DirectionalEdge" where
  "example_edge i a b = \<lparr>edgeid = i, edge_start = a, edge_end = b, edge_metadata = Map.empty\<rparr>"

section \<open>Edge scorers\<close>

text \<open>
  The scorer plugins and the \<^verbatim>\<open>EdgeScorer\<close> that owns them are exercised by
  \<^verbatim>\<open>test_edge_scorers.cpp\<close>, but their implementation files are not part of
  the sources at hand. The definitions of this section are therefore written
  from the specification (sections 3, 4.1 to 4.7 and 7), and checked against
  the values the tests expect.
\<close>

datatype ScoreResult = NotTraversable | Traversable real

definition getFloat :: "Metadata \<Rightarrow> string \<Rightarrow> real option" where
  \<comment> \<open>Modelled from the spec: the typed lookup of the metadata store (its code is missing);
      an absent key, or a value of another type, gives the absent signal.\<close>
  "getFloat m k = (case m k of Some (MFloat v) \<Rightarrow> Some v | _ \<Rightarrow> None)"

definition getString :: "Metadata \<Rightarrow> string \<Rightarrow> string option" where
  \<comment> \<open>Modelled from the spec: the typed lookup of the metadata store (its code is missing).\<close>
  "getString m k = (case m k of Some (MString v) \<Rightarrow> Some v | _ \<Rightarrow> None)"

definition edge_length :: "DirectionalEdge \<Rightarrow> real" where
  \<comment> \<open>Modelled from the spec: the Euclidean distance between the edge's endpoint
      coordinates, which the Distance and Time scorers (missing) use.\<close>
  "edge_length e =
     sqrt ((coord_x (coords (edge_end e)) - coord_x (coords (edge_start e)))\<^sup>2
           + (coord_y (coords (edge_end e)) - coord_y (coords (edge_start e)))\<^sup>2)"

definition distance_score :: "DirectionalEdge \<Rightarrow> ScoreResult" where
  \<comment> \<open>Modelled from the spec: the Distance Scorer (section 4.2), whose code is missing.\<close>
  "distance_score e =
     (case getFloat (edge_metadata e) ''speed_limit'' of
        Some v \<Rightarrow> if 0 < v then Traversable (edge_length e / v) else Traversable (edge_length e)
      | None \<Rightarrow> Traversable (edge_length e))"

definition penalty_score :: "DirectionalEdge \<Rightarrow> ScoreResult" where
  \<comment> \<open>Modelled from the spec: the Penalty Scorer (section 4.3), whose code is missing.\<close>
  "penalty_score e =
     (case getFloat (edge_metadata e) ''penalty'' of
        Some v \<Rightarrow> Traversable v
      | None \<Rightarrow> Traversable 0)"

definition time_score :: "real \<Rightarrow> DirectionalEdge \<Rightarrow> ScoreResult" where
  \<comment> \<open>Modelled from the spec: the Time Scorer (section 4.4), whose code is missing;
      the first argument is the configured default maximum speed.\<close>
  "time_score max_speed e =
     (case getFloat (edge_metadata e) ''abs_time_taken'' of
        Some t \<Rightarrow> Traversable t
      | None \<Rightarrow>
          (case getFloat (edge_metadata e) ''abs_speed_limit'' of
             Some v \<Rightarrow> Traversable (edge_length e / v)
           | None \<Rightarrow> Traversable (edge_length e / max_speed)))"

record SemanticConfig =
  semantic_classes :: "(string \<times> real) list"
  semantic_key :: string

definition class_weight :: "(string \<times> real) list \<Rightarrow> string \<Rightarrow> real" where
  \<comment> \<open>Modelled from the spec: the weight table of the Semantic Scorer (missing);
      a name that is not in the table contributes nothing.\<close>
  "class_weight table c = (case map_of table c of Some w \<Rightarrow> w | None \<Rightarrow> 0)"

definition metadataValueScorer :: "SemanticConfig \<Rightarrow> Metadata \<Rightarrow> real" where
  \<comment> \<open>Modelled from the spec: value mode of the Semantic Scorer (section 4.5, code missing):
      the value stored under the semantic key, resolved in the weight table.\<close>
  "metadataValueScorer cfg m =
     (case getString m (semantic_key cfg) of
        Some c \<Rightarrow> class_weight (semantic_classes cfg) c
      | None \<Rightarrow> 0)"

definition metadataKeyScorer :: "SemanticConfig \<Rightarrow> Metadata \<Rightarrow> real" where
  \<comment> \<open>Modelled from the spec: key mode of the Semantic Scorer (section 4.5, code missing):
      every class name present as a metadata key contributes its weight.\<close>
  "metadataKeyScorer cfg m =
     sum_list (map (\<lambda>(c, w). if m c = None then 0 else w) (semantic_classes cfg))"

definition semantic_score :: "SemanticConfig \<Rightarrow> DirectionalEdge \<Rightarrow> ScoreResult" where
  \<comment> \<open>Modelled from the spec: the Semantic Scorer (section 4.5), whose code is missing.
      Key mode is selected by an empty semantic key; the edge and its end node contribute
      independently.\<close>
  "semantic_score cfg e =
     (if semantic_key cfg = []
      then Traversable (metadataKeyScorer cfg (edge_metadata e)
                        + metadataKeyScorer cfg (node_metadata (edge_end e)))
      else Traversable (metadataValueScorer cfg (edge_metadata e)
                        + metadataValueScorer cfg (node_metadata (edge_end e))))"

definition test_semantic_config :: SemanticConfig where
  "test_semantic_config =
     \<lparr>semantic_classes = [(''Test'', 0), (''Test1'', 1), (''Test2'', 2)],
      semantic_key = ''class''\<rparr>"

text \<open>
  The Dynamic Adjustment scorer keeps the set of closed edge identifiers and the
  map of override costs. One administrative request, as the test sends it,
  carries the edges to close, the edges to reopen and the costs to set.
\<close>

record AdjustEdgesState =
  closed_edges :: "nat set"
  dynamic_penalties :: "nat \<rightharpoonup> real"

record AdjustEdgesRequest =
  req_closed_edges :: "nat list"
  req_opened_edges :: "nat list"
  req_adjust_edges :: "(nat \<times> real) list"

definition initial_adjust_state :: AdjustEdgesState where
  \<comment> \<open>Modelled from the spec: both tables are empty at construction (section 3).\<close>
  "initial_adjust_state = \<lparr>closed_edges = {}, dynamic_penalties = Map.empty\<rparr>"

definition close_edges :: "nat list \<Rightarrow> AdjustEdgesState \<Rightarrow> AdjustEdgesState" where
  \<comment> \<open>Modelled from the spec: closing adds the identifiers to the ClosedEdgeSet
      (section 4.7); the plugin's code is missing.\<close>
  "close_edges ids st = st\<lparr>closed_edges := closed_edges st \<union> set ids\<rparr>"

definition open_edges :: "nat list \<Rightarrow> AdjustEdgesState \<Rightarrow> AdjustEdgesState" where
  \<comment> \<open>Modelled from the spec: reopening removes the identifiers from the ClosedEdgeSet
      (section 4.7); the plugin's code is missing.\<close>
  "open_edges ids st = st\<lparr>closed_edges := closed_edges st - set ids\<rparr>"

definition set_costs :: "(nat \<times> real) list \<Rightarrow> AdjustEdgesState \<Rightarrow> AdjustEdgesState" where
  \<comment> \<open>Modelled from the spec: the companion operation sets (edgeId, cost) pairs into the
      OverrideCostMap (section 4.7); the plugin's code is missing.\<close>
  "set_costs pairs st =
     st\<lparr>dynamic_penalties := foldl (\<lambda>m (i, c). m(i \<mapsto> c)) (dynamic_penalties st) pairs\<rparr>"

definition adjust_edges :: "AdjustEdgesRequest \<Rightarrow> AdjustEdgesState \<Rightarrow> bool \<times> AdjustEdgesState" where
  \<comment> \<open>Modelled from the spec: the administrative control channel (sections 4.7 and 6),
      whose code is missing; it returns the success indicator and the new state.\<close>
  "adjust_edges req st =
     (True, set_costs (req_adjust_edges req)
              (open_edges (req_opened_edges req) (close_edges (req_closed_edges req) st)))"

definition adjust_score :: "AdjustEdgesState \<Rightarrow> DirectionalEdge \<Rightarrow> ScoreResult" where
  \<comment> \<open>Modelled from the spec: the score of the Dynamic Adjustment scorer (section 4.7),
      whose code is missing.\<close>
  "adjust_score st e =
     (if edgeid e \<in> closed_edges st then NotTraversable
      else (case dynamic_penalties st (edgeid e) of
              Some c \<Rightarrow> Traversable c
            | None \<Rightarrow> Traversable 0))"

text \<open>
  The Costmap Scorer. The specification leaves the line walk open, so the raster is
  taken together with it: a function from the two endpoints of a segment to the costs
  of the cells sampled along it, \<open>None\<close> for a sample outside the raster. The lethal
  value, which is also the value the cost is normalised by, is 254.
\<close>

record CostmapConfig =
  use_maximum :: bool
  invalid_on_collision :: bool
  invalid_off_map :: bool

type_synonym Costmap = "Coordinates \<Rightarrow> Coordinates \<Rightarrow> nat option list"

definition default_costmap_config :: CostmapConfig where
  \<comment> \<open>Modelled from the spec: the default options of the Costmap Scorer (section 4.6).\<close>
  "default_costmap_config =
     \<lparr>use_maximum = True, invalid_on_collision = True, invalid_off_map = True\<rparr>"

definition aggregate_costs :: "bool \<Rightarrow> nat list \<Rightarrow> real" where
  \<comment> \<open>Modelled from the spec: the aggregation of the sampled costs (section 4.6), the
      maximum or the average; no sample gives cost 0.\<close>
  "aggregate_costs maximum costs =
     (if costs = [] then 0
      else if maximum then real (fold max costs 0)
      else real (sum_list costs) / real (length costs))"

definition costmap_score :: "CostmapConfig \<Rightarrow> Costmap option \<Rightarrow> DirectionalEdge \<Rightarrow> ScoreResult" where
  \<comment> \<open>Modelled from the spec: the Costmap Scorer (section 4.6), whose code is missing.\<close>
  "costmap_score cfg raster e =
     (case raster of
        None \<Rightarrow> if invalid_off_map cfg then NotTraversable else Traversable 0
      | Some samples \<Rightarrow>
          (let cells = samples (coords (edge_start e)) (coords (edge_end e));
               costs = concat (map (\<lambda>c. case c of None \<Rightarrow> [] | Some v \<Rightarrow> [v]) cells)
           in if invalid_off_map cfg \<and> list_ex (\<lambda>c. c = None) cells then NotTraversable
              else if invalid_on_collision cfg \<and> list_ex (\<lambda>v. v = 254) costs then NotTraversable
              else Traversable (aggregate_costs (use_maximum cfg) costs / 254)))"

text \<open>
  The composite engine. A plugin instance is its evaluation function; the host's plugin
  registry resolves a plugin type name to an instance, or fails to.
\<close>

type_synonym EdgeCostFunction = "DirectionalEdge \<Rightarrow> ScoreResult"

record PluginConfig =
  plugin_name :: string
  plugin_type :: string
  plugin_weight :: real

record LoadedPlugin =
  loaded_name :: string
  loaded_weight :: real
  loaded_score :: EdgeCostFunction

datatype EngineError = ConfigurationError string

fun load_plugins ::
  "(string \<Rightarrow> EdgeCostFunction option) \<Rightarrow> PluginConfig list \<Rightarrow> EngineError + LoadedPlugin list" where
  \<comment> \<open>Modelled from the spec: construction of the Composite Scoring Engine (section 4.1),
      whose code is missing: it fails at the first configured plugin that the registry
      cannot resolve.\<close>
  "load_plugins registry [] = Inr []"
| "load_plugins registry (c # cs) =
     (case registry (plugin_type c) of
        None \<Rightarrow> Inl (ConfigurationError (plugin_name c))
      | Some f \<Rightarrow>
          (case load_plugins registry cs of
             Inl err \<Rightarrow> Inl err
           | Inr ps \<Rightarrow>
               Inr (\<lparr>loaded_name = plugin_name c, loaded_weight = plugin_weight c,
                      loaded_score = f\<rparr> # ps)))"

definition numPlugins :: "LoadedPlugin list \<Rightarrow> nat" where
  \<comment> \<open>Modelled from the spec: the active plugin count of the engine (section 4.1).\<close>
  "numPlugins ps = length ps"

fun engine_score :: "LoadedPlugin list \<Rightarrow> DirectionalEdge \<Rightarrow> ScoreResult" where
  \<comment> \<open>Modelled from the spec: the score of the Composite Scoring Engine (section 4.1),
      whose code is missing: not traversable as soon as one plugin says so, otherwise the
      weighted sum of the plugins' costs.\<close>
  "engine_score [] e = Traversable 0"
| "engine_score (p # ps) e =
     (case loaded_score p e of
        NotTraversable \<Rightarrow> NotTraversable
      | Traversable c \<Rightarrow>
          (case engine_score ps e of
             NotTraversable \<Rightarrow> NotTraversable
           | Traversable rest \<Rightarrow> Traversable (loaded_weight p * c + rest)))"

definition default_registry :: "string \<Rightarrow> EdgeCostFunction option" where
  \<comment> \<open>Modelled from the spec: the six scorers the registry knows by type name, each
      configured as the tests leave it: the default maximum speed 0.5 of the Time Scorer,
      the three classes of the semantic tests, the default options of the Costmap Scorer
      with no raster supplied yet, and both tables of the Dynamic Adjustment empty.\<close>
  "default_registry ty =
     (if ty = ''nav2_route::DistanceScorer'' then Some distance_score
      else if ty = ''nav2_route::PenaltyScorer'' then Some penalty_score
      else if ty = ''nav2_route::TimeScorer'' then Some (time_score (1 / 2))
      else if ty = ''nav2_route::SemanticScorer'' then Some (semantic_score test_semantic_config)
      else if ty = ''nav2_route::CostmapScorer''
        then Some (costmap_score default_costmap_config None)
      else if ty = ''nav2_route::AdjustEdgesScorer'' then Some (adjust_score initial_adjust_state)
      else None)"

definition single_edge_cost_function :: "string \<Rightarrow> PluginConfig list" where
  "single_edge_cost_function name =
     [\<lparr>plugin_name = name, plugin_type = ''nav2_route::'' @ name, plugin_weight = 1\<rparr>]"

definition default_edge_cost_functions :: "PluginConfig list" where
  "default_edge_cost_functions =
     [\<lparr>plugin_name = ''DistanceScorer'', plugin_type = ''nav2_route::DistanceScorer'',
        plugin_weight = 1\<rparr>,
      \<lparr>plugin_name = ''AdjustEdgesScorer'', plugin_type = ''nav2_route::AdjustEdgesScorer'',
        plugin_weight = 1\<rparr>]"

definition fake_edge_cost_functions :: "PluginConfig list" where
  "fake_edge_cost_functions =
     [\<lparr>plugin_name = ''FakeScorer'', plugin_type = ''FakePluginPath'', plugin_weight = 1\<rparr>]"

text \<open>
  The states, edges and metadata that \<^verbatim>\<open>test_edge_scorers.cpp\<close> builds: the
  adjustment request of \<^verbatim>\<open>test_invalid_edge_scoring\<close> applied to a fresh plugin,
  and the edge between the nodes at (1, 0) and (0, 0) with given metadata.
\<close>

definition test_adjust_state :: AdjustEdgesState where
  "test_adjust_state =
     snd (adjust_edges \<lparr>req_closed_edges = [10], req_opened_edges = [],
                        req_adjust_edges = [(11, 42)]\<rparr> initial_adjust_state)"

definition time_test_edge :: "Metadata \<Rightarrow> DirectionalEdge" where
  "time_test_edge m =
     \<lparr>edgeid = 10, edge_start = example_node 1 1 0, edge_end = example_node 2 0 0,
      edge_metadata = m\<rparr>"

definition semantic_test_edge :: "Metadata \<Rightarrow> Metadata \<Rightarrow> DirectionalEdge" where
  "semantic_test_edge m_edge m_node =
     \<lparr>edgeid = 10, edge_start = example_node 1 1 0,
      edge_end = \<lparr>nodeid = 2, coords = \<lparr>coord_x = 0, coord_y = 0\<rparr>, node_metadata = m_node\<rparr>,
      edge_metadata = m_edge\<rparr>"

section \<open>Properties of the binary32 arithmetic\<close>

text \<open>
  Within a binade, and throughout the subnormal range, rounding is rounding to a
  multiple of the unit in the last place; a value with a 24-bit significand and an
  exponent in range is not changed by rounding.
\<close>

lemma pow2_powr: "pow2 k = 2 powr of_int k"
  by (simp add: pow2_def powr_real_of_int inverse_eq_divide)

lemma pow2_pos: "0 < pow2 k"
  by (simp add: pow2_powr)

lemma ulp_exponent_normal:
  assumes "pow2 k \<le> \<bar>r\<bar>" and "\<bar>r\<bar> < pow2 (k + 1)" and "- 126 \<le> k"
  shows "ulp_exponent r = k - 23"
proof -
  from assms(1) pow2_pos [of k] have pos: "0 < \<bar>r\<bar>"
    by linarith
  have "\<lfloor>log 2 \<bar>r\<bar>\<rfloor> = k"
    using assms(1,2) pos by (simp add: floor_log_eq_powr_iff pow2_powr)
  with assms(3) show ?thesis
    by (simp add: ulp_exponent_def)
qed

lemma round32_normal:
  assumes "pow2 k \<le> \<bar>r\<bar>" and "\<bar>r\<bar> < pow2 (k + 1)" and "- 126 \<le> k"
  shows "round32 r =
     (let v = of_int (round_to_even (r / pow2 (k - 23))) * pow2 (k - 23)
      in if largest_float < v then PlusInf
         else if v < - largest_float then MinusInf
         else Finite v)"
proof -
  from assms(1) pow2_pos [of k] have "r \<noteq> 0"
    by auto
  then show ?thesis
    by (simp add: round32_def ulp_exponent_normal [OF assms] Let_def)
qed

lemma round_to_even_of_int: "round_to_even (of_int n) = n"
  by (simp add: round_to_even_def)

lemma pow2_add: "pow2 (a + b) = pow2 a * pow2 b"
  by (simp add: pow2_powr powr_add)

lemma pow2_mono: "a \<le> b \<Longrightarrow> pow2 a \<le> pow2 b"
  by (simp add: pow2_powr)

lemma pow2_nonneg_exp: "0 \<le> k \<Longrightarrow> pow2 k = of_int (2 ^ nat k)"
  by (simp add: pow2_def)

lemma ulp_exponent_le:
  assumes "r \<noteq> 0" and "\<bar>r\<bar> < pow2 (e + 24)" and "- 149 \<le> e"
  shows "ulp_exponent r \<le> e"
proof -
  from assms have pos: "0 < \<bar>r\<bar>" by simp
  have "log 2 \<bar>r\<bar> < of_int (e + 24)"
    using assms(2) pos by (simp add: log_less_iff pow2_powr)
  then have "\<lfloor>log 2 \<bar>r\<bar>\<rfloor> < e + 24"
    by (simp add: floor_less_iff)
  with assms(3) show ?thesis
    by (simp add: ulp_exponent_def)
qed

lemma round32_dyadic:
  assumes "\<bar>m\<bar> < 2 ^ 24" and "- 149 \<le> e" and "e \<le> 104"
  shows "round32 (of_int m * pow2 e) = Finite (of_int m * pow2 e)"
proof (cases "m = 0")
  case True
  then show ?thesis by (simp add: round32_def)
next
  case False
  define r where "r = of_int m * pow2 e"
  define b where "b = ulp_exponent r"
  from False pow2_pos [of e] have r0: "r \<noteq> 0"
    by (simp add: r_def)
  have "\<bar>r\<bar> = of_int \<bar>m\<bar> * pow2 e"
    using pow2_pos [of e] by (simp add: r_def abs_mult)
  also have "\<dots> < of_int (2 ^ 24) * pow2 e"
    using assms(1) pow2_pos [of e] by (intro mult_strict_right_mono) simp_all
  also have "\<dots> = pow2 (e + 24)"
    by (simp add: pow2_add) (simp add: pow2_def)
  finally have "\<bar>r\<bar> < pow2 (e + 24)" .
  with r0 have be: "b \<le> e"
    unfolding b_def using assms(2) by (rule ulp_exponent_le)
  then have split: "pow2 e = of_int (2 ^ nat (e - b)) * pow2 b"
    using pow2_add [of "e - b" b] pow2_nonneg_exp [of "e - b"] by simp
  have quot: "r / pow2 b = of_int (m * 2 ^ nat (e - b))"
    using pow2_pos [of b] by (simp add: r_def split)
  have v: "of_int (round_to_even (r / pow2 b)) * pow2 b = r"
    unfolding quot round_to_even_of_int by (simp add: r_def split)
  have "\<bar>r\<bar> = of_int \<bar>m\<bar> * pow2 e"
    using pow2_pos [of e] by (simp add: r_def abs_mult)
  also have "\<dots> \<le> of_int (2 ^ 24 - 1) * pow2 104"
    using assms(1,3) pow2_pos [of e] pow2_mono [of e 104]
    by (intro mult_mono) simp_all
  also have "\<dots> = largest_float"
    by (simp add: largest_float_def pow2_def)
  finally have "\<bar>r\<bar> \<le> largest_float" .
  then have "\<not> largest_float < r" and "\<not> r < - largest_float"
    by auto
  with r0 v show ?thesis
    unfolding r_def [symmetric] by (simp add: round32_def Let_def b_def)
qed

lemma round32_int:
  assumes "\<bar>m\<bar> < 2 ^ 24"
  shows "round32 (of_int m) = Finite (of_int m)"
  using round32_dyadic [OF assms, of 0] by (simp add: pow2_def)

text \<open>
  Values the examples below need. \<open>13421773 / 268435456\<close> is \<^verbatim>\<open>0.05f\<close>, the
  default density; \<open>5033165 / 33554432\<close> is \<^verbatim>\<open>0.15f\<close> and
  \<open>5033165 / 16777216\<close> is \<^verbatim>\<open>0.3f\<close>. At 1000000 the unit in the last place is
  \<open>1 / 16\<close>, so adding \<^verbatim>\<open>0.05f\<close> there adds \<open>1 / 16\<close>.
\<close>

lemma round32_0: "round32 0 = Finite 0"
  by (simp add: round32_def)

lemma round32_1: "round32 1 = Finite 1"
  using round32_int [of 1] by simp

lemma round32_2: "round32 2 = Finite 2"
  using round32_int [of 2] by simp

lemma round32_4: "round32 4 = Finite 4"
  using round32_int [of 4] by simp

lemma round32_20: "round32 20 = Finite 20"
  using round32_int [of 20] by simp

lemma round32_half: "round32 (1 / 2) = Finite (1 / 2)"
  using round32_dyadic [of 1 "- 1"] by (simp add: pow2_def)

lemma round32_3_2: "round32 (3 / 2) = Finite (3 / 2)"
  using round32_dyadic [of 3 "- 1"] by (simp add: pow2_def)

lemma round32_5_2: "round32 (5 / 2) = Finite (5 / 2)"
  using round32_dyadic [of 5 "- 1"] by (simp add: pow2_def)

lemma round32_005: "round32 (1 / 20) = Finite (13421773 / 268435456)"
  by (subst round32_normal [where k = "- 5"])
    (simp_all add: pow2_def round_to_even_def largest_float_def Let_def)

lemma round32_015: "round32 (3 / 20) = Finite (5033165 / 33554432)"
  by (subst round32_normal [where k = "- 3"])
    (simp_all add: pow2_def round_to_even_def largest_float_def Let_def)

lemma round32_03: "round32 (3 / 10) = Finite (5033165 / 16777216)"
  by (subst round32_normal [where k = "- 2"])
    (simp_all add: pow2_def round_to_even_def largest_float_def Let_def)

lemma exact_005: "round32 (13421773 / 268435456) = Finite (13421773 / 268435456)"
  using round32_dyadic [of 13421773 "- 28"] by (simp add: pow2_def)

lemma exact_015: "round32 (5033165 / 33554432) = Finite (5033165 / 33554432)"
  using round32_dyadic [of 5033165 "- 25"] by (simp add: pow2_def)

lemma exact_03: "round32 (5033165 / 16777216) = Finite (5033165 / 16777216)"
  using round32_dyadic [of 5033165 "- 24"] by (simp add: pow2_def)

lemma quotient_1_005: "round32 (268435456 / 13421773) = Finite 20"
  by (subst round32_normal [where k = 4])
    (simp_all add: pow2_def round_to_even_def largest_float_def Let_def)

lemma quotient_015_005: "round32 (40265320 / 13421773) = Finite 3"
  by (subst round32_normal [where k = 1])
    (simp_all add: pow2_def round_to_even_def largest_float_def Let_def)

lemma quotient_03_005: "round32 (80530640 / 13421773) = Finite 6"
  by (subst round32_normal [where k = 2])
    (simp_all add: pow2_def round_to_even_def largest_float_def Let_def)

lemma exact_big_512: "round32 4294967808 = Finite 4294967808"
  using round32_dyadic [of 8388609 9] by (simp add: pow2_def)

lemma exact_big_1024: "round32 4294968320 = Finite 4294968320"
  using round32_dyadic [of 8388610 9] by (simp add: pow2_def)

lemma exact_million: "round32 1000000 = Finite 1000000" "round32 1000001 = Finite 1000001"
  using round32_int [of 1000000] round32_int [of 1000001] by simp_all

lemma round_to_even_up:
  assumes "1 / 2 < c" and "c < 1"
  shows "round_to_even (of_int z + c) = z + 1"
proof -
  from assms have "\<lfloor>of_int z + c\<rfloor> = z"
    by (intro floor_unique) simp_all
  with assms show ?thesis
    by (simp add: round_to_even_def)
qed

lemma step_at_million:
  assumes "k \<le> 19"
  shows "round32 (1000000 + real k / 16 + 13421773 / 268435456) = Finite (1000000 + real (Suc k) / 16)"
proof -
  define r where "r = 1000000 + real k / 16 + 13421773 / (268435456 :: real)"
  define e :: int where "e = 19"
  from assms have k: "real k \<le> 19" by simp
  then have lo: "pow2 e \<le> \<bar>r\<bar>" and hi: "\<bar>r\<bar> < pow2 (e + 1)"
    by (simp_all add: r_def pow2_def e_def)
  have e126: "- 126 \<le> e"
    by (simp add: e_def)
  have u: "pow2 (e - 23) = 1 / 16"
    by (simp add: pow2_def e_def)
  have "r / (1 / 16) = of_int (int k + 16000000) + 13421773 / 16777216"
    by (simp add: r_def field_simps)
  moreover have "round_to_even (of_int (int k + 16000000) + 13421773 / 16777216) =
      int k + 16000000 + 1"
    by (rule round_to_even_up) simp_all
  ultimately have "round_to_even (r / (1 / 16)) = int k + 16000000 + 1"
    by (simp only:)
  then have v: "of_int (round_to_even (r / (1 / 16))) * (1 / 16) = 1000000 + real (Suc k) / 16"
    by (simp add: field_simps)
  have "0 < largest_float" and "1000002 < largest_float"
    by (simp_all add: largest_float_def)
  moreover from k have "0 \<le> real (Suc k) / 16" and "real (Suc k) / 16 \<le> 2"
    by simp_all
  ultimately have "\<not> largest_float < 1000000 + real (Suc k) / 16"
    and "\<not> 1000000 + real (Suc k) / 16 < - largest_float"
    by linarith+
  then show ?thesis
    unfolding r_def [symmetric] round32_normal [OF lo hi e126] Let_def u v by simp
qed

lemma walk_at_million:
  "k \<le> 20 \<Longrightarrow> walk (Finite (13421773 / 268435456)) (Finite 1000000) k = Finite (1000000 + real k / 16)"
proof (induction k)
  case 0
  show ?case by simp
next
  case (Suc k)
  then have "walk (Finite (13421773 / 268435456)) (Finite 1000000) k = Finite (1000000 + real k / 16)"
    and "k \<le> 19"
    by simp_all
  then show ?case
    using step_at_million [of k] by simp
qed

lemma walk_zero: "walk (Finite 0) (Finite 0) k = Finite 0"
  by (induction k) (simp_all add: round32_0)

text \<open>Rounding keeps the sign.\<close>

lemma round_to_even_sign:
  "0 \<le> m \<Longrightarrow> 0 \<le> round_to_even m"
  "m \<le> 0 \<Longrightarrow> round_to_even m \<le> 0"
proof -
  show "0 \<le> round_to_even m" if "0 \<le> m"
  proof -
    from that have "0 \<le> \<lfloor>m\<rfloor>" by simp
    then show ?thesis
      by (simp add: round_to_even_def Let_def)
  qed
  show "round_to_even m \<le> 0" if "m \<le> 0"
  proof (cases "m = of_int \<lfloor>m\<rfloor>")
    case True
    with that have "\<lfloor>m\<rfloor> \<le> 0" by simp
    with True show ?thesis
      by (simp add: round_to_even_def Let_def)
  next
    case False
    with that have "m < 0"
      by (cases "m = 0") simp_all
    then have "\<lfloor>m\<rfloor> < 0"
      by simp
    then have "\<lfloor>m\<rfloor> + 1 \<le> 0"
      by linarith
    then show ?thesis
      by (simp add: round_to_even_def Let_def)
  qed
qed

lemma round32_sign:
  assumes "round32 r = Finite v"
  shows "0 \<le> r \<Longrightarrow> 0 \<le> v" and "r \<le> 0 \<Longrightarrow> v \<le> 0"
proof -
  define u where "u = pow2 (ulp_exponent r)"
  have u: "0 < u" by (simp add: u_def pow2_pos)
  from assms have v: "r \<noteq> 0 \<Longrightarrow> v = of_int (round_to_even (r / u)) * u"
    by (simp add: round32_def Let_def u_def split: if_splits)
  from assms have v0: "r = 0 \<Longrightarrow> v = 0"
    by (simp add: round32_def)
  show "0 \<le> v" if "0 \<le> r"
  proof (cases "r = 0")
    case True
    with v0 show ?thesis by simp
  next
    case False
    from that u have "0 \<le> r / u" by simp
    then have "0 \<le> round_to_even (r / u)" by (rule round_to_even_sign)
    with u v [OF False] show ?thesis by simp
  qed
  show "v \<le> 0" if "r \<le> 0"
  proof (cases "r = 0")
    case True
    with v0 show ?thesis by simp
  next
    case False
    from that u have "r / u \<le> 0" by (simp add: divide_nonpos_pos)
    then have "round_to_even (r / u) \<le> 0" by (rule round_to_even_sign)
    with u v [OF False] show ?thesis by (simp add: mult_nonpos_nonneg)
  qed
qed

section \<open>Properties of the PathConverter\<close>

subsection \<open>The interpolation loop\<close>

text \<open>
  While the loop runs, the counter cannot overflow: it is below \<open>num_pts - 1\<close>.
  From any counter value the loop appends the poses reached by \<open>1, 2, \<dots>\<close> further
  steps, as many as the counter is short of \<open>num_pts - 1\<close>.
\<close>

lemma word32_succ: "(c :: 32 word) < n \<Longrightarrow> unat (c + 1) = Suc (unat c)"
proof -
  assume "c < n"
  then have "unat c < unat n" by (simp add: word_less_nat_alt)
  moreover have "unat n < 2 ^ 32" using unsigned_less [of n] by simp
  ultimately have "unat c + 1 < 2 ^ 32" by simp
  then show ?thesis by (simp add: unat_word_ariths)
qed

lemma walk_shift: "walk step (fadd p step) k = walk step p (Suc k)"
  by (induction k) simp_all

lemma march_shift:
  "march ux uy d (fadd px (fmul ux d)) (fadd py (fmul uy d)) k = march ux uy d px py (Suc k)"
  unfolding march_def walk_shift ..

lemma interpolate_loop_char:
  "interpolate_loop ux uy d num_pts px py pt_ctr ps =
     ps @ map (march ux uy d px py) [1..<Suc (unat (num_pts - 1) - unat pt_ctr)]"
proof (induction ux uy d num_pts px py pt_ctr ps rule: interpolate_loop.induct)
  case (1 ux uy d num_pts px py pt_ctr ps)
  let ?px = "fadd px (fmul ux d)" and ?py = "fadd py (fmul uy d)"
  show ?case
  proof (cases "pt_ctr < num_pts - 1")
    case True
    then have lt: "unat pt_ctr < unat (num_pts - 1)"
      by (simp add: word_less_nat_alt)
    from True have suc: "unat (pt_ctr + 1) = Suc (unat pt_ctr)"
      by (rule word32_succ)
    define j where "j = unat (num_pts - 1) - Suc (unat pt_ctr)"
    with lt have m: "unat (num_pts - 1) - unat pt_ctr = Suc j"
      by simp
    have "[1..<Suc (Suc j)] = 1 # [Suc 1..<Suc (Suc j)]"
      by (rule upt_conv_Cons) simp
    also have "\<dots> = 1 # map Suc [1..<Suc j]"
      by (simp only: map_Suc_upt)
    finally have "map (march ux uy d px py) [1..<Suc (Suc j)] =
            march ux uy d px py 1 # map (march ux uy d px py) (map Suc [1..<Suc j])"
      by simp
    also have "\<dots> = toMsg ?px ?py # map (march ux uy d ?px ?py) [1..<Suc j]"
      by (simp add: march_shift comp_def) (simp add: march_def)
    finally have split: "map (march ux uy d px py) [1..<Suc (Suc j)] =
        toMsg ?px ?py # map (march ux uy d ?px ?py) [1..<Suc j]" .
    have "interpolate_loop ux uy d num_pts px py pt_ctr ps =
            interpolate_loop ux uy d num_pts ?px ?py (pt_ctr + 1) (ps @ [toMsg ?px ?py])"
      using True by simp
    also have "\<dots> = (ps @ [toMsg ?px ?py]) @ map (march ux uy d ?px ?py) [1..<Suc j]"
      using "1.IH" [OF True] by (simp add: suc j_def)
    finally show ?thesis
      by (simp only: m split) simp
  next
    case False
    then have "unat (num_pts - 1) - unat pt_ctr = 0"
      by (simp add: word_less_nat_alt)
    with False show ?thesis by simp
  qed
qed

lemma interpolateEdge_char:
  "interpolateEdge density x0 y0 x1 y1 ps =
     ps @ map (march (fdiv (fsub x1 x0) (hypotf (fsub x1 x0) (fsub y1 y0)))
                     (fdiv (fsub y1 y0) (hypotf (fsub x1 x0) (fsub y1 y0)))
                     (fdiv (hypotf (fsub x1 x0) (fsub y1 y0))
                        (uint_to_float
                           (float_to_uint (fceil (fdiv (hypotf (fsub x1 x0) (fsub y1 y0)) density)))))
                     x0 y0)
            [0..<Suc (unat (float_to_uint
                              (fceil (fdiv (hypotf (fsub x1 x0) (fsub y1 y0)) density)) - 1))]"
proof -
  have upt: "[0..<Suc m] = 0 # [1..<Suc m]" for m
    by (simp add: upt_conv_Cons)
  have m0: "march ux uy d x0 y0 0 = toMsg x0 y0" for ux uy d
    by (simp add: march_def)
  show ?thesis
    unfolding interpolateEdge_def Let_def interpolate_loop_char upt
    by (simp add: m0)
qed

lemma length_interpolateEdge:
  "length (interpolateEdge density x0 y0 x1 y1 ps) =
     length ps + Suc (unat (float_to_uint
                              (fceil (fdiv (hypotf (fsub x1 x0) (fsub y1 y0)) density)) - 1))"
  by (simp add: interpolateEdge_char)

lemma interpolateEdge_append:
  "interpolateEdge density x0 y0 x1 y1 ps = ps @ interpolateEdge density x0 y0 x1 y1 []"
  by (simp add: interpolateEdge_char)

lemma interpolateEdge_start:
  "interpolateEdge density x0 y0 x1 y1 ps =
     ps @ toMsg x0 y0 # drop (Suc (length ps)) (interpolateEdge density x0 y0 x1 y1 ps)"
  unfolding interpolateEdge_def Let_def interpolate_loop_char by simp

lemma unat_max32: "unat (- 1 :: 32 word) = 4294967295"
  by (simp add: unsigned_minus_1_eq_mask mask_eq_exp_minus_1)

lemma num_pts_in_range:
  assumes "0 < n" and "n < 2 ^ 32"
  shows "unat (word_of_int n :: 32 word) = nat n"
    and "Suc (unat ((word_of_int n :: 32 word) - 1)) = nat n"
proof -
  from assms have "take_bit 32 n = n"
    by (simp add: take_bit_int_eq_self)
  then show u: "unat (word_of_int n :: 32 word) = nat n"
    by (simp add: unsigned_of_int)
  from assms u have "(word_of_int n :: 32 word) \<noteq> 0"
    by (metis nat_0_iff not_le unsigned_0)
  then have "unat ((word_of_int n :: 32 word) - 1) = unat (word_of_int n :: 32 word) - 1"
    by (simp add: unat_minus_one)
  with u assms show "Suc (unat ((word_of_int n :: 32 word) - 1)) = nat n"
    by simp
qed

lemma num_pts_of_quotient:
  assumes "0 < q"
  shows "float_to_uint (fceil (Finite q)) = word_of_int \<lceil>q\<rceil>"
  using assms by simp

lemma interpolateEdge_spaced:
  assumes "fdiv (hypotf (fsub x1 x0) (fsub y1 y0)) density = Finite q"
    and "0 < q" and "\<lceil>q\<rceil> < 2 ^ 32"
  shows "interpolateEdge density x0 y0 x1 y1 ps = ps @ spaced_points density x0 y0 x1 y1"
    and "length (spaced_points density x0 y0 x1 y1) = nat \<lceil>q\<rceil>"
proof -
  from assms(2) have pos: "0 < \<lceil>q\<rceil>"
    by simp
  have n: "float_to_uint (fceil (fdiv (hypotf (fsub x1 x0) (fsub y1 y0)) density)) =
             word_of_int \<lceil>q\<rceil>"
    using assms(2) by (simp add: assms(1))
  show "interpolateEdge density x0 y0 x1 y1 ps = ps @ spaced_points density x0 y0 x1 y1"
    unfolding interpolateEdge_char spaced_points_def Let_def n
    by (simp only: num_pts_in_range [OF pos assms(3)])
  show "length (spaced_points density x0 y0 x1 y1) = nat \<lceil>q\<rceil>"
    unfolding spaced_points_def Let_def n
    by (simp add: num_pts_in_range [OF pos assms(3)])
qed

subsection \<open>The emitted points\<close>

lemma nth_spaced_points:
  assumes "k < length (spaced_points density x0 y0 x1 y1)"
  shows "spaced_points density x0 y0 x1 y1 ! k =
           toMsg (walk (fst (step_vector density x0 y0 x1 y1)) x0 k)
                 (walk (snd (step_vector density x0 y0 x1 y1)) y0 k)"
  using assms by (simp add: spaced_points_def step_vector_def Let_def march_def)

lemma step_spaced_points:
  assumes "Suc k < length (spaced_points density x0 y0 x1 y1)"
  shows "spaced_points density x0 y0 x1 y1 ! Suc k =
           toMsg (fadd (position_x (spaced_points density x0 y0 x1 y1 ! k))
                       (fst (step_vector density x0 y0 x1 y1)))
                 (fadd (position_y (spaced_points density x0 y0 x1 y1 ! k))
                       (snd (step_vector density x0 y0 x1 y1)))"
proof -
  from assms have "k < length (spaced_points density x0 y0 x1 y1)"
    by simp
  then show ?thesis
    using assms by (simp add: nth_spaced_points toMsg_def)
qed

lemma hd_spaced_points:
  assumes "0 < length (spaced_points density x0 y0 x1 y1)"
  shows "hd (spaced_points density x0 y0 x1 y1) = toMsg x0 y0"
proof -
  from assms have "spaced_points density x0 y0 x1 y1 \<noteq> []"
    by auto
  then have "hd (spaced_points density x0 y0 x1 y1) = spaced_points density x0 y0 x1 y1 ! 0"
    by (rule hd_conv_nth)
  also from assms have "\<dots> = toMsg x0 y0"
    by (simp add: nth_spaced_points)
  finally show ?thesis .
qed

lemma euclid_nonneg: "0 \<le> euclid a b"
  by (simp add: euclid_def)

lemma exact_quotient:
  assumes nr: "no_rounding density a0 b0 a1 b1"
    and quot: "fdiv (hypotf (fsub (Finite a1) (Finite a0)) (fsub (Finite b1) (Finite b0)))
                 (Finite density) = Finite q"
    and q: "0 < q"
  shows "q = segment_length a0 b0 a1 b1 / density"
    and "0 < density" and "0 < segment_length a0 b0 a1 b1"
proof -
  define mag where "mag = segment_length a0 b0 a1 b1"
  have e: "exact (a1 - a0)" "exact (b1 - b0)" "exact mag" "exact (mag / density)"
    using nr unfolding no_rounding_def Let_def mag_def by blast+
  have "hypotf (fsub (Finite a1) (Finite a0)) (fsub (Finite b1) (Finite b0)) = Finite mag"
    using e(1,2,3) by (simp add: exact_def mag_def segment_length_def euclid_def)
  with quot have fd: "fdiv (Finite mag) (Finite density) = Finite q"
    by simp
  have d0: "density \<noteq> 0"
  proof
    assume "density = 0"
    with fd show False
      by (simp add: signed_inf_def split: if_splits)
  qed
  with fd e(4) show eq: "q = segment_length a0 b0 a1 b1 / density"
    by (simp add: exact_def mag_def)
  have "0 \<le> segment_length a0 b0 a1 b1"
    by (simp add: segment_length_def euclid_nonneg)
  with eq q d0 show "0 < density" and "0 < segment_length a0 b0 a1 b1"
    by (auto simp: zero_less_divide_iff)
qed

lemma point_pose_inj: "point_pose p = point_pose p' \<Longrightarrow> p = p'"
  by (cases p, cases p') (simp add: point_pose_def toMsg_def)

text \<open>
  Where no operation rounds, the float computation is the real one, and the points
  are the evenly spaced points of the specification.
\<close>

lemma walk_exact:
  assumes "\<forall>j \<le> k. exact (a + real j * s)"
  shows "walk (Finite s) (Finite a) k = Finite (a + real k * s)"
  using assms
proof (induction k)
  case 0
  show ?case by simp
next
  case (Suc k)
  then have "walk (Finite s) (Finite a) k = Finite (a + real k * s)"
    by simp
  moreover from Suc.prems have "exact (a + real (Suc k) * s)"
    by blast
  then have "round32 (a + real k * s + s) = Finite (a + real (Suc k) * s)"
    by (simp add: exact_def algebra_simps)
  ultimately show ?case
    by simp
qed

lemma length_evenly_spaced:
  "length (evenly_spaced density a0 b0 a1 b1) = point_count density a0 b0 a1 b1"
  by (simp add: evenly_spaced_def Let_def)

lemma nth_evenly_spaced:
  assumes "k < point_count density a0 b0 a1 b1"
  shows "evenly_spaced density a0 b0 a1 b1 ! k =
           (a0 + real k * (segment_length a0 b0 a1 b1 / real (point_count density a0 b0 a1 b1)) *
                   ((a1 - a0) / segment_length a0 b0 a1 b1),
            b0 + real k * (segment_length a0 b0 a1 b1 / real (point_count density a0 b0 a1 b1)) *
                   ((b1 - b0) / segment_length a0 b0 a1 b1))"
  using assms by (simp add: evenly_spaced_def Let_def)

lemma euclid_unit:
  assumes "0 < euclid a b"
  shows "(a / euclid a b)\<^sup>2 + (b / euclid a b)\<^sup>2 = 1"
proof -
  have "(a / euclid a b)\<^sup>2 + (b / euclid a b)\<^sup>2 = (a\<^sup>2 + b\<^sup>2) / (euclid a b)\<^sup>2"
    by (simp add: power_divide add_divide_distrib)
  also have "\<dots> = (euclid a b)\<^sup>2 / (euclid a b)\<^sup>2"
    by (simp add: euclid_def)
  also from assms have "\<dots> = 1"
    by simp
  finally show ?thesis .
qed

lemma euclid_scale:
  assumes "0 \<le> c"
  shows "euclid (c * a) (c * b) = c * euclid a b"
proof -
  have "(c * a)\<^sup>2 + (c * b)\<^sup>2 = c\<^sup>2 * (a\<^sup>2 + b\<^sup>2)"
    by (simp add: power_mult_distrib distrib_left)
  with assms show ?thesis
    by (simp add: euclid_def real_sqrt_mult)
qed

lemma euclid_unit_vector:
  assumes "0 < euclid a b"
  shows "euclid (a / euclid a b) (b / euclid a b) = 1"
  using euclid_unit [OF assms] by (simp add: euclid_def)

lemma spacing_evenly_spaced:
  assumes "0 < segment_length a0 b0 a1 b1"
    and "Suc k < point_count density a0 b0 a1 b1"
  shows "point_dist (evenly_spaced density a0 b0 a1 b1 ! k)
                    (evenly_spaced density a0 b0 a1 b1 ! Suc k) =
           segment_length a0 b0 a1 b1 / real (point_count density a0 b0 a1 b1)"
proof -
  define mag where "mag = segment_length a0 b0 a1 b1"
  define step where "step = mag / real (point_count density a0 b0 a1 b1)"
  from assms have pos: "0 < mag" and k: "Suc k < point_count density a0 b0 a1 b1"
    by (simp_all add: mag_def)
  then have step0: "0 \<le> step"
    by (simp add: step_def)
  from k have k': "k < point_count density a0 b0 a1 b1" by simp
  have diff: "a + real (Suc k) * step * u - (a + real k * step * u) = step * u" for a u
    by (simp add: algebra_simps)
  have "evenly_spaced density a0 b0 a1 b1 ! k =
          (a0 + real k * step * ((a1 - a0) / mag), b0 + real k * step * ((b1 - b0) / mag))"
    using k' unfolding mag_def step_def by (rule nth_evenly_spaced)
  moreover have "evenly_spaced density a0 b0 a1 b1 ! Suc k =
          (a0 + real (Suc k) * step * ((a1 - a0) / mag),
           b0 + real (Suc k) * step * ((b1 - b0) / mag))"
    using k unfolding mag_def step_def by (rule nth_evenly_spaced)
  ultimately have "point_dist (evenly_spaced density a0 b0 a1 b1 ! k)
                   (evenly_spaced density a0 b0 a1 b1 ! Suc k) =
          euclid (step * ((a1 - a0) / mag)) (step * ((b1 - b0) / mag))"
    by (simp only: point_dist_def fst_conv snd_conv diff)
  also have "\<dots> = step * euclid ((a1 - a0) / mag) ((b1 - b0) / mag)"
    using step0 by (rule euclid_scale)
  also have "\<dots> = step"
    using pos unfolding mag_def segment_length_def by (simp add: euclid_unit_vector)
  finally show ?thesis
    by (simp add: step_def mag_def)
qed

lemma end_not_in_evenly_spaced:
  assumes "0 < segment_length a0 b0 a1 b1"
  shows "(a1, b1) \<notin> set (evenly_spaced density a0 b0 a1 b1)"
proof
  define mag where "mag = segment_length a0 b0 a1 b1"
  define n where "n = point_count density a0 b0 a1 b1"
  assume "(a1, b1) \<in> set (evenly_spaced density a0 b0 a1 b1)"
  then obtain k where k: "k < n"
    and ex: "a1 = a0 + real k * (mag / real n) * ((a1 - a0) / mag)"
    and ey: "b1 = b0 + real k * (mag / real n) * ((b1 - b0) / mag)"
    by (auto simp: evenly_spaced_def Let_def mag_def n_def)
  from assms have pos: "0 < mag" by (simp add: mag_def)
  from k have npos: "0 < real n" by simp
  define r where "r = real k / real n"
  from k npos have r: "r < 1" by (simp add: r_def)
  from pos have "real k * (mag / real n) * (c / mag) = r * c" for c
    by (simp add: r_def)
  with ex ey have "a1 = a0 + r * (a1 - a0)" and "b1 = b0 + r * (b1 - b0)"
    by simp_all
  then have "(1 - r) * (a1 - a0) = 0" and "(1 - r) * (b1 - b0) = 0"
    by (simp_all add: algebra_simps)
  with r have "a1 - a0 = 0" and "b1 - b0 = 0"
    by simp_all
  then have "mag = 0" by (simp add: mag_def segment_length_def euclid_def)
  with pos show False by simp
qed

lemma spaced_points_exact:
  assumes dn: "0 < density" and len: "0 < segment_length a0 b0 a1 b1"
    and range: "\<lceil>segment_length a0 b0 a1 b1 / density\<rceil> < 2 ^ 32"
    and nr: "no_rounding density a0 b0 a1 b1"
  shows "fdiv (hypotf (fsub (Finite a1) (Finite a0)) (fsub (Finite b1) (Finite b0))) (Finite density) =
           Finite (segment_length a0 b0 a1 b1 / density)"
    and "spaced_points (Finite density) (Finite a0) (Finite b0) (Finite a1) (Finite b1) =
           map point_pose (evenly_spaced density a0 b0 a1 b1)"
proof -
  define mag where "mag = segment_length a0 b0 a1 b1"
  define n where "n = point_count density a0 b0 a1 b1"
  define step where "step = mag / real n"
  define ux where "ux = (a1 - a0) / mag"
  define uy where "uy = (b1 - b0) / mag"
  have nr': "exact (a1 - a0) \<and> exact (b1 - b0) \<and> exact mag \<and> exact (mag / density)
      \<and> exact (real n) \<and> exact step \<and> exact ux \<and> exact uy \<and> exact (ux * step)
      \<and> exact (uy * step)
      \<and> list_all (\<lambda>k. exact (a0 + real k * (ux * step)) \<and> exact (b0 + real k * (uy * step)))
            [0..<n]"
    using nr unfolding no_rounding_def Let_def mag_def n_def step_def ux_def uy_def .
  then have e: "exact (a1 - a0)" "exact (b1 - b0)" "exact mag" "exact (mag / density)"
      "exact (real n)" "exact step" "exact ux" "exact uy" "exact (ux * step)" "exact (uy * step)"
    by blast+
  from nr' have "list_all (\<lambda>k. exact (a0 + real k * (ux * step)) \<and> exact (b0 + real k * (uy * step)))
            [0..<n]"
    by blast
  then have pts: "\<forall>k < n. exact (a0 + real k * (ux * step)) \<and> exact (b0 + real k * (uy * step))"
    by (simp only: list_all_iff) simp
  from len have mag0: "0 < mag" by (simp add: mag_def)
  with dn have q0: "0 < mag / density" by simp
  then have c0: "0 < \<lceil>mag / density\<rceil>" by simp
  then have n0: "0 < n" by (simp add: n_def point_count_def mag_def)
  have sub: "fsub (Finite a1) (Finite a0) = Finite (a1 - a0)"
      "fsub (Finite b1) (Finite b0) = Finite (b1 - b0)"
    using e(1,2) by (simp_all add: exact_def)
  have hyp: "hypotf (Finite (a1 - a0)) (Finite (b1 - b0)) = Finite mag"
    using e(3) by (simp add: exact_def mag_def segment_length_def euclid_def)
  have quot: "fdiv (Finite mag) (Finite density) = Finite (mag / density)"
    using e(4) dn by (simp add: exact_def)
  show "fdiv (hypotf (fsub (Finite a1) (Finite a0)) (fsub (Finite b1) (Finite b0))) (Finite density) =
           Finite (segment_length a0 b0 a1 b1 / density)"
    unfolding sub hyp using quot by (simp only: mag_def)
  have num: "float_to_uint (fceil (Finite (mag / density))) = word_of_int \<lceil>mag / density\<rceil>"
    using q0 by simp
  from range have range': "\<lceil>mag / density\<rceil> < 2 ^ 32"
    by (simp add: mag_def)
  have un: "unat (word_of_int \<lceil>mag / density\<rceil> :: 32 word) = n"
    using num_pts_in_range(1) [OF c0 range'] by (simp add: n_def point_count_def mag_def)
  have tof: "uint_to_float (word_of_int \<lceil>mag / density\<rceil>) = Finite (real n)"
    using e(5) by (simp add: uint_to_float_def un exact_def)
  have stepf: "fdiv (Finite mag) (Finite (real n)) = Finite step"
    using e(6) n0 by (simp add: exact_def step_def)
  have uxf: "fdiv (Finite (a1 - a0)) (Finite mag) = Finite ux"
    and uyf: "fdiv (Finite (b1 - b0)) (Finite mag) = Finite uy"
    using e(7,8) mag0 by (simp_all add: exact_def ux_def uy_def)
  have mulf: "fmul (Finite ux) (Finite step) = Finite (ux * step)"
      "fmul (Finite uy) (Finite step) = Finite (uy * step)"
    using e(9,10) by (simp_all add: exact_def)
  have pose: "march (Finite ux) (Finite uy) (Finite step) (Finite a0) (Finite b0) k =
                point_pose (a0 + real k * step * ux, b0 + real k * step * uy)" if "k < n" for k
  proof -
    from that pts have ea: "\<forall>j \<le> k. exact (a0 + real j * (ux * step))"
      and eb: "\<forall>j \<le> k. exact (b0 + real j * (uy * step))"
      by auto
    have "walk (Finite (ux * step)) (Finite a0) k = Finite (a0 + real k * (ux * step))"
      using ea by (rule walk_exact)
    moreover have "walk (Finite (uy * step)) (Finite b0) k = Finite (b0 + real k * (uy * step))"
      using eb by (rule walk_exact)
    ultimately have "march (Finite ux) (Finite uy) (Finite step) (Finite a0) (Finite b0) k =
        toMsg (Finite (a0 + real k * (ux * step))) (Finite (b0 + real k * (uy * step)))"
      unfolding march_def mulf by (simp only:)
    then show ?thesis
      by (simp add: point_pose_def mult_ac)
  qed
  have "spaced_points (Finite density) (Finite a0) (Finite b0) (Finite a1) (Finite b1) =
          map (march (Finite ux) (Finite uy) (Finite step) (Finite a0) (Finite b0)) [0..<n]"
    unfolding spaced_points_def Let_def sub hyp quot num tof stepf uxf uyf un ..
  also have "\<dots> = map (\<lambda>k. point_pose (a0 + real k * step * ux, b0 + real k * step * uy)) [0..<n]"
    using pose by simp
  also have "\<dots> = map point_pose (evenly_spaced density a0 b0 a1 b1)"
    by (simp add: evenly_spaced_def Let_def comp_def n_def [symmetric] mag_def [symmetric]
        step_def ux_def uy_def)
  finally show "spaced_points (Finite density) (Finite a0) (Finite b0) (Finite a1) (Finite b1) =
           map point_pose (evenly_spaced density a0 b0 a1 b1)" .
qed

lemma interpolateEdge_exact:
  assumes "0 < density" and "0 < segment_length a0 b0 a1 b1"
    and "\<lceil>segment_length a0 b0 a1 b1 / density\<rceil> < 2 ^ 32"
    and "no_rounding density a0 b0 a1 b1"
  shows "interpolateEdge (Finite density) (Finite a0) (Finite b0) (Finite a1) (Finite b1) ps =
           ps @ map point_pose (evenly_spaced density a0 b0 a1 b1)"
proof -
  have q: "fdiv (hypotf (fsub (Finite a1) (Finite a0)) (fsub (Finite b1) (Finite b0)))
             (Finite density) = Finite (segment_length a0 b0 a1 b1 / density)"
    using assms by (rule spaced_points_exact(1))
  from assms(1,2) have "0 < segment_length a0 b0 a1 b1 / density"
    by simp
  with q have "interpolateEdge (Finite density) (Finite a0) (Finite b0) (Finite a1) (Finite b1) ps =
      ps @ spaced_points (Finite density) (Finite a0) (Finite b0) (Finite a1) (Finite b1)"
    using assms(3) by (rule interpolateEdge_spaced(1))
  then show ?thesis
    by (simp only: spaced_points_exact(2) [OF assms])
qed

lemma upt4: "[0..<4] = [0, 1, 2, 3]"
  by (simp add: upt_rec)

lemma no_rounding_example: "no_rounding (1 / 2) 1 1 1 3"
  by (simp add: no_rounding_def segment_length_def euclid_def point_count_def Let_def upt4
      exact_def round32_0 round32_1 round32_2 round32_4 round32_half round32_3_2 round32_5_2)

lemma quotient_example:
  "fdiv (hypotf (fsub (Finite 1) (Finite 1)) (fsub (Finite 3) (Finite 1))) (Finite (1 / 2)) = Finite 4"
  by (simp add: round32_0 round32_2 round32_4)

lemma evenly_spaced_example:
  "evenly_spaced (1 / 2) 1 1 1 3 = [(1, 1), (1, 3 / 2), (1, 2), (1, 5 / 2)]"
  by (simp add: evenly_spaced_def segment_length_def euclid_def point_count_def Let_def upt4)

text \<open>
  Claim C1, as stated, fails in four ways. On a segment of length zero the point
  count is 0, but \<^verbatim>\<open>interpolateEdge\<close> pushes the start pose before the loop and the
  loop bound \<open>num_pts - 1\<close> wraps around to \<open>2^32 - 1\<close>: with density \<^verbatim>\<open>0.05f\<close>
  the call from (0, 0) to (0, 0) produces \<open>2^32\<close> poses. On the segment from
  (1000000, 0) to (1000001, 0) with density \<^verbatim>\<open>0.05f\<close> the 20 poses are
  \<open>1 / 16\<close> apart, not \<open>1 / 20\<close>, because each addition is rounded, and the pose
  of index 16 is the segment's end point. On the segment from (0, 0) to
  (0, \<^verbatim>\<open>0.3f\<close>) the rounded quotient by \<^verbatim>\<open>0.05f\<close> is 6, so 6 poses are
  produced, while the ceiling of the exact quotient is 7. With density 1 the segment
  from (0, 0) to (0, 4294968320), where \<open>4294968320 = 2^32 + 1024\<close>, gets 1024
  poses, because the count does not fit the 32-bit \<open>num_pts\<close>.
\<close>

theorem interpolateEdge_point_count_counterexample:
  "length (interpolateEdge (Finite (13421773 / 268435456)) (Finite 0) (Finite 0) (Finite 0)
             (Finite 0) []) = 4294967296
   \<and> hypotf (fsub (Finite 0) (Finite 0)) (fsub (Finite 0) (Finite 0)) = Finite 0
   \<and> nat \<lceil>0 / (13421773 / 268435456) :: real\<rceil> = 0
   \<and> length (interpolateEdge (Finite (13421773 / 268435456)) (Finite 1000000) (Finite 0)
               (Finite 1000001) (Finite 0) []) = 20
   \<and> interpolateEdge (Finite (13421773 / 268435456)) (Finite 1000000) (Finite 0)
        (Finite 1000001) (Finite 0) [] ! 1 = toMsg (Finite (1000000 + 1 / 16)) (Finite 0)
   \<and> interpolateEdge (Finite (13421773 / 268435456)) (Finite 1000000) (Finite 0)
        (Finite 1000001) (Finite 0) [] ! 16 = toMsg (Finite 1000001) (Finite 0)
   \<and> length (interpolateEdge (Finite (13421773 / 268435456)) (Finite 0) (Finite 0) (Finite 0)
               (Finite (5033165 / 16777216)) []) = 6
   \<and> hypotf (fsub (Finite 0) (Finite 0)) (fsub (Finite (5033165 / 16777216)) (Finite 0)) =
       Finite (5033165 / 16777216)
   \<and> nat \<lceil>(5033165 / 16777216) / (13421773 / 268435456) :: real\<rceil> = 7
   \<and> length (interpolateEdge (Finite 1) (Finite 0) (Finite 0) (Finite 0) (Finite 4294968320) [])
       = 1024
   \<and> hypotf (fsub (Finite 0) (Finite 0)) (fsub (Finite 4294968320) (Finite 0)) =
       Finite 4294968320"
proof -
  let ?d = "Finite (13421773 / 268435456)"
  have zero: "length (interpolateEdge ?d (Finite 0) (Finite 0) (Finite 0) (Finite 0) []) =
                4294967296"
    by (simp add: length_interpolateEdge round32_0 unat_max32)
  have q: "fdiv (hypotf (fsub (Finite 1000001) (Finite 1000000)) (fsub (Finite 0) (Finite 0))) ?d =
             Finite 20"
    by (simp add: round32_0 round32_1 quotient_1_005)
  have sv: "step_vector ?d (Finite 1000000) (Finite 0) (Finite 1000001) (Finite 0) =
              (Finite (13421773 / 268435456), Finite 0)"
    by (simp add: step_vector_def Let_def round32_0 round32_1 quotient_1_005 uint_to_float_def
        round32_20 round32_005 exact_005)
  have q20: "(0 :: real) < 20" "\<lceil>20 :: real\<rceil> < 2 ^ 32"
    by simp_all
  have eq: "interpolateEdge ?d (Finite 1000000) (Finite 0) (Finite 1000001) (Finite 0) [] =
              spaced_points ?d (Finite 1000000) (Finite 0) (Finite 1000001) (Finite 0)"
    and len: "length (spaced_points ?d (Finite 1000000) (Finite 0) (Finite 1000001) (Finite 0)) = 20"
    using interpolateEdge_spaced(1) [OF q q20, of "[]"] interpolateEdge_spaced(2) [OF q q20]
    by simp_all
  have p1: "spaced_points ?d (Finite 1000000) (Finite 0) (Finite 1000001) (Finite 0) ! 1 =
              toMsg (Finite (1000000 + 1 / 16)) (Finite 0)"
    using step_at_million [of 0] by (simp add: nth_spaced_points len sv round32_0)
  have p16: "spaced_points ?d (Finite 1000000) (Finite 0) (Finite 1000001) (Finite 0) ! 16 =
              toMsg (Finite 1000001) (Finite 0)"
    using walk_at_million [of 16] by (simp add: nth_spaced_points len sv walk_zero)
  have third: "length (interpolateEdge ?d (Finite 0) (Finite 0) (Finite 0)
                  (Finite (5033165 / 16777216)) []) = 6"
    by (simp add: length_interpolateEdge round32_0 exact_03 quotient_03_005)
  have big: "length (interpolateEdge (Finite 1) (Finite 0) (Finite 0) (Finite 0)
                (Finite 4294968320) []) = 1024"
    by (simp add: length_interpolateEdge round32_0 exact_big_1024)
  have mags: "hypotf (fsub (Finite 0) (Finite 0)) (fsub (Finite 0) (Finite 0)) = Finite 0"
      "hypotf (fsub (Finite 0) (Finite 0)) (fsub (Finite (5033165 / 16777216)) (Finite 0)) =
         Finite (5033165 / 16777216)"
      "hypotf (fsub (Finite 0) (Finite 0)) (fsub (Finite 4294968320) (Finite 0)) =
         Finite 4294968320"
    by (simp_all add: round32_0 exact_03 exact_big_1024)
  have ceils: "nat \<lceil>0 / (13421773 / 268435456) :: real\<rceil> = 0"
      "nat \<lceil>(5033165 / 16777216) / (13421773 / 268435456) :: real\<rceil> = 7"
    by simp_all
  from zero len p1 p16 third big mags ceils show ?thesis
    by (simp only: eq)
qed

text \<open>
  Claim C1, amended: for every segment with finite endpoints for which the quotient
  of the segment's length by the density, as computed in binary32, is a positive number
  \<open>q\<close> with \<open>ceil(q)\<close> below \<open>2^32\<close>, \<^verbatim>\<open>interpolateEdge\<close> appends exactly
  \<open>n = ceil(q)\<close> points. The first is the segment's start point, and each further
  point is the one before it plus the step vector, the rounded product of the rounded
  unit direction vector with the rounded step length \<open>segmentLength / n\<close>, added in
  binary32. Where none of these operations rounds, \<open>q\<close> is the exact quotient, the
  points are the evenly spaced points \<open>start + k * (segmentLength / n) * direction\<close>,
  consecutive ones are \<open>segmentLength / n\<close> apart, and the segment's end point is not
  among them.
\<close>

theorem interpolateEdge_evenly_spaced:
  assumes "fdiv (hypotf (fsub (Finite a1) (Finite a0)) (fsub (Finite b1) (Finite b0)))
             (Finite density) = Finite q"
    and "0 < q" and "\<lceil>q\<rceil> < 2 ^ 32"
  shows "interpolateEdge (Finite density) (Finite a0) (Finite b0) (Finite a1) (Finite b1) ps =
           ps @ spaced_points (Finite density) (Finite a0) (Finite b0) (Finite a1) (Finite b1)
       \<and> length (spaced_points (Finite density) (Finite a0) (Finite b0) (Finite a1) (Finite b1)) =
           nat \<lceil>q\<rceil>
       \<and> hd (spaced_points (Finite density) (Finite a0) (Finite b0) (Finite a1) (Finite b1)) =
           toMsg (Finite a0) (Finite b0)
       \<and> (\<forall>k. Suc k < nat \<lceil>q\<rceil> \<longrightarrow>
             spaced_points (Finite density) (Finite a0) (Finite b0) (Finite a1) (Finite b1) ! Suc k =
               toMsg
                 (fadd (position_x (spaced_points (Finite density) (Finite a0) (Finite b0)
                                      (Finite a1) (Finite b1) ! k))
                       (fst (step_vector (Finite density) (Finite a0) (Finite b0)
                               (Finite a1) (Finite b1))))
                 (fadd (position_y (spaced_points (Finite density) (Finite a0) (Finite b0)
                                      (Finite a1) (Finite b1) ! k))
                       (snd (step_vector (Finite density) (Finite a0) (Finite b0)
                               (Finite a1) (Finite b1)))))
       \<and> (no_rounding density a0 b0 a1 b1 \<longrightarrow>
             q = segment_length a0 b0 a1 b1 / density
           \<and> spaced_points (Finite density) (Finite a0) (Finite b0) (Finite a1) (Finite b1) =
               map point_pose (evenly_spaced density a0 b0 a1 b1)
           \<and> (\<forall>k. Suc k < nat \<lceil>q\<rceil> \<longrightarrow>
                 point_dist (evenly_spaced density a0 b0 a1 b1 ! k)
                            (evenly_spaced density a0 b0 a1 b1 ! Suc k) =
                   segment_length a0 b0 a1 b1 / real (nat \<lceil>q\<rceil>))
           \<and> toMsg (Finite a1) (Finite b1) \<notin>
               set (spaced_points (Finite density) (Finite a0) (Finite b0) (Finite a1) (Finite b1)))"
proof -
  let ?sp = "spaced_points (Finite density) (Finite a0) (Finite b0) (Finite a1) (Finite b1)"
  have eq: "interpolateEdge (Finite density) (Finite a0) (Finite b0) (Finite a1) (Finite b1) ps =
              ps @ ?sp"
    and len: "length ?sp = nat \<lceil>q\<rceil>"
    using assms by (rule interpolateEdge_spaced)+
  from assms(2) have pos: "0 < nat \<lceil>q\<rceil>"
    by simp
  with len have hd: "hd ?sp = toMsg (Finite a0) (Finite b0)"
    by (simp add: hd_spaced_points)
  have steps: "\<forall>k. Suc k < nat \<lceil>q\<rceil> \<longrightarrow>
      ?sp ! Suc k =
        toMsg (fadd (position_x (?sp ! k))
                 (fst (step_vector (Finite density) (Finite a0) (Finite b0) (Finite a1) (Finite b1))))
              (fadd (position_y (?sp ! k))
                 (snd (step_vector (Finite density) (Finite a0) (Finite b0) (Finite a1) (Finite b1))))"
    using len by (simp add: step_spaced_points)
  have exact_case: "q = segment_length a0 b0 a1 b1 / density
      \<and> ?sp = map point_pose (evenly_spaced density a0 b0 a1 b1)
      \<and> (\<forall>k. Suc k < nat \<lceil>q\<rceil> \<longrightarrow>
            point_dist (evenly_spaced density a0 b0 a1 b1 ! k)
                       (evenly_spaced density a0 b0 a1 b1 ! Suc k) =
              segment_length a0 b0 a1 b1 / real (nat \<lceil>q\<rceil>))
      \<and> toMsg (Finite a1) (Finite b1) \<notin> set ?sp"
    if nr: "no_rounding density a0 b0 a1 b1"
  proof -
    from nr assms(1,2) have q: "q = segment_length a0 b0 a1 b1 / density"
      and dn: "0 < density" and mag: "0 < segment_length a0 b0 a1 b1"
      by (rule exact_quotient)+
    from assms(3) q have range: "\<lceil>segment_length a0 b0 a1 b1 / density\<rceil> < 2 ^ 32"
      by simp
    have sp: "?sp = map point_pose (evenly_spaced density a0 b0 a1 b1)"
      using dn mag range nr by (rule spaced_points_exact(2))
    have n: "point_count density a0 b0 a1 b1 = nat \<lceil>q\<rceil>"
      by (simp add: point_count_def q)
    have spacing: "\<forall>k. Suc k < nat \<lceil>q\<rceil> \<longrightarrow>
        point_dist (evenly_spaced density a0 b0 a1 b1 ! k)
                   (evenly_spaced density a0 b0 a1 b1 ! Suc k) =
          segment_length a0 b0 a1 b1 / real (nat \<lceil>q\<rceil>)"
      using spacing_evenly_spaced [OF mag, of _ density] by (simp add: n)
    have "(a1, b1) \<notin> set (evenly_spaced density a0 b0 a1 b1)"
      using mag by (rule end_not_in_evenly_spaced)
    then have "point_pose (a1, b1) \<notin> set (map point_pose (evenly_spaced density a0 b0 a1 b1))"
      by (auto dest: point_pose_inj)
    then have "toMsg (Finite a1) (Finite b1) \<notin> set ?sp"
      by (simp add: sp point_pose_def)
    with q sp spacing show ?thesis
      by blast
  qed
  from eq len hd steps exact_case show ?thesis
    by blast
qed

theorem interpolateEdge_evenly_spaced_witness:
  "fdiv (hypotf (fsub (Finite 1) (Finite 1)) (fsub (Finite 3) (Finite 1))) (Finite (1 / 2)) = Finite 4
   \<and> (0 :: real) < 4 \<and> \<lceil>4 :: real\<rceil> < 2 ^ 32
   \<and> no_rounding (1 / 2) 1 1 1 3
   \<and> interpolateEdge (Finite (1 / 2)) (Finite 1) (Finite 1) (Finite 1) (Finite 3) [] =
       [toMsg (Finite 1) (Finite 1), toMsg (Finite 1) (Finite (3 / 2)),
        toMsg (Finite 1) (Finite 2), toMsg (Finite 1) (Finite (5 / 2))]
   \<and> point_dist (1, 1) (1, 3 / 2) = 1 / 2
   \<and> toMsg (Finite 1) (Finite 3) \<notin>
       set (interpolateEdge (Finite (1 / 2)) (Finite 1) (Finite 1) (Finite 1) (Finite 3) [])"
proof -
  let ?sp = "spaced_points (Finite (1 / 2)) (Finite 1) (Finite 1) (Finite 1) (Finite 3)"
  have pd: "point_dist (1, 1) (1, 3 / 2) = 1 / 2"
    by (simp add: point_dist_def euclid_def)
  have q: "(0 :: real) < 4" "\<lceil>4 :: real\<rceil> < 2 ^ 32"
    by simp_all
  note th = interpolateEdge_evenly_spaced
         [where density = "1 / 2" and ?a0.0 = 1 and ?b0.0 = 1 and ?a1.0 = 1 and ?b1.0 = 3
            and q = 4 and ps = "[]", OF quotient_example q]
  from th have eq: "interpolateEdge (Finite (1 / 2)) (Finite 1) (Finite 1) (Finite 1) (Finite 3) [] =
                      ?sp"
    by simp
  from th no_rounding_example have sp: "?sp = map point_pose (evenly_spaced (1 / 2) 1 1 1 3)"
    and notin: "toMsg (Finite 1) (Finite 3) \<notin> set ?sp"
    by blast+
  have pts: "map point_pose (evenly_spaced (1 / 2) 1 1 1 3) =
       [toMsg (Finite 1) (Finite 1), toMsg (Finite 1) (Finite (3 / 2)),
        toMsg (Finite 1) (Finite 2), toMsg (Finite 1) (Finite (5 / 2))]"
    by (simp add: evenly_spaced_example point_pose_def)
  from notin have notin': "toMsg (Finite 1) (Finite 3) \<notin>
       set (interpolateEdge (Finite (1 / 2)) (Finite 1) (Finite 1) (Finite 1) (Finite 3) [])"
    unfolding eq .
  have "interpolateEdge (Finite (1 / 2)) (Finite 1) (Finite 1) (Finite 1) (Finite 3) [] =
       [toMsg (Finite 1) (Finite 1), toMsg (Finite 1) (Finite (3 / 2)),
        toMsg (Finite 1) (Finite 2), toMsg (Finite 1) (Finite (5 / 2))]"
    by (simp only: eq sp pts)
  with quotient_example q no_rounding_example pd notin' show ?thesis
    by blast
qed

text \<open>
  A computed quotient \<open>mag / density\<close> that is a positive number needs a finite,
  strictly positive \<open>mag\<close> and a finite density greater than 0.
\<close>

lemma hypotf_nonneg:
  assumes "hypotf u v = Finite m"
  shows "0 \<le> m"
proof -
  from assms obtain a b where "u = Finite a" "v = Finite b"
    by (cases u; cases v) simp_all
  with assms have "round32 (sqrt (a\<^sup>2 + b\<^sup>2)) = Finite m"
    by simp
  then show ?thesis
    by (rule round32_sign(1)) simp
qed

lemma positive_quotient:
  assumes "fdiv (hypotf u v) density = Finite q" and "0 < q"
  shows "\<exists>m d. hypotf u v = Finite m \<and> density = Finite d \<and> 0 < m \<and> 0 < d"
proof -
  from assms obtain m d where m: "hypotf u v = Finite m" and d: "density = Finite d"
    by (cases "hypotf u v"; cases density) (simp_all add: signed_inf_def split: if_splits)
  from m have m0: "0 \<le> m" by (rule hypotf_nonneg)
  from assms(1) have d0: "d \<noteq> 0" and r: "round32 (m / d) = Finite q"
    by (simp_all add: m d signed_inf_def split: if_splits)
  have "\<not> m / d \<le> 0"
  proof
    assume "m / d \<le> 0"
    with r have "q \<le> 0" by (rule round32_sign(2))
    with assms(2) show False by simp
  qed
  then have "0 < m / d" by simp
  with m0 d0 have "0 < m \<and> 0 < d"
    by (auto simp: zero_less_divide_iff)
  with m d show ?thesis by blast
qed

text \<open>
  Claim C10, as stated, fails when \<open>ceil(mag / density)\<close> does not fit the
  \<^verbatim>\<open>unsigned int\<close> that holds the point count: with density 1 and a segment from
  (0, 0) to (4294967808, 0), where \<open>4294967808 = 2^32 + 512\<close>, the count kept in
  \<open>num_pts\<close> is 512, and 512 poses are appended instead of 4294967808. It also fails
  for the exact quotient: from (0, 0) to (\<^verbatim>\<open>0.15f\<close>, 0) with density \<^verbatim>\<open>0.05f\<close>
  the exact quotient has ceiling 4, but the quotient rounds to 3 and 3 poses are
  appended.
\<close>

theorem interpolateEdge_count_overflow_counterexample:
  "hypotf (fsub (Finite 4294967808) (Finite 0)) (fsub (Finite 0) (Finite 0)) = Finite 4294967808
   \<and> fdiv (Finite 4294967808) (Finite 1) = Finite 4294967808
   \<and> length (interpolateEdge (Finite 1) (Finite 0) (Finite 0) (Finite 4294967808) (Finite 0) [])
       = 512
   \<and> hypotf (fsub (Finite (5033165 / 33554432)) (Finite 0)) (fsub (Finite 0) (Finite 0)) =
       Finite (5033165 / 33554432)
   \<and> nat \<lceil>(5033165 / 33554432) / (13421773 / 268435456) :: real\<rceil> = 4
   \<and> length (interpolateEdge (Finite (13421773 / 268435456)) (Finite 0) (Finite 0)
               (Finite (5033165 / 33554432)) (Finite 0) []) = 3"
  by (simp add: length_interpolateEdge round32_0 exact_big_512 exact_015 quotient_015_005)

text \<open>
  Claim C10, amended: for every call of \<^verbatim>\<open>interpolateEdge\<close> in which the quotient
  \<open>mag / density\<close>, as computed in binary32, is a positive number \<open>q\<close> with
  \<open>ceil(q)\<close> below \<open>2^32\<close> (which needs a density greater than 0 and a strictly
  positive distance \<open>mag\<close>), the function terminates (the loop is a total function,
  by the termination proof of \<open>interpolate_loop\<close>) and appends exactly \<open>ceil(q)\<close>
  poses to the output vector, leaving the poses already there untouched; the first
  appended pose is the start point.
\<close>

theorem interpolateEdge_terminates_count:
  assumes "fdiv (hypotf (fsub x1 x0) (fsub y1 y0)) density = Finite q"
    and "0 < q" and "\<lceil>q\<rceil> < 2 ^ 32"
  shows "length (interpolateEdge density x0 y0 x1 y1 ps) = length ps + nat \<lceil>q\<rceil>
       \<and> take (length ps) (interpolateEdge density x0 y0 x1 y1 ps) = ps
       \<and> interpolateEdge density x0 y0 x1 y1 ps ! length ps = toMsg x0 y0"
proof -
  have "interpolateEdge density x0 y0 x1 y1 ps ! length ps = toMsg x0 y0"
    by (subst interpolateEdge_start) (simp only: nth_append_length)
  moreover have "take (length ps) (interpolateEdge density x0 y0 x1 y1 ps) = ps"
    by (simp add: interpolateEdge_char)
  moreover have "length (interpolateEdge density x0 y0 x1 y1 ps) = length ps + nat \<lceil>q\<rceil>"
    using interpolateEdge_spaced(1) [OF assms, of ps] interpolateEdge_spaced(2) [OF assms]
    by simp
  ultimately show ?thesis by simp
qed

theorem interpolateEdge_terminates_count_witness:
  "fdiv (hypotf (fsub (Finite 1) (Finite 0)) (fsub (Finite 0) (Finite 0)))
     (Finite (13421773 / 268435456)) = Finite 20
   \<and> (0 :: real) < 20 \<and> \<lceil>20 :: real\<rceil> < 2 ^ 32
   \<and> length (interpolateEdge (Finite (13421773 / 268435456)) (Finite 0) (Finite 0) (Finite 1)
               (Finite 0) [toMsg (Finite 7) (Finite 7)]) = 21
   \<and> interpolateEdge (Finite (13421773 / 268435456)) (Finite 0) (Finite 0) (Finite 1)
        (Finite 0) [toMsg (Finite 7) (Finite 7)] ! 1 = toMsg (Finite 0) (Finite 0)"
proof -
  have q: "fdiv (hypotf (fsub (Finite 1) (Finite 0)) (fsub (Finite 0) (Finite 0)))
             (Finite (13421773 / 268435456)) = Finite 20"
    by (simp add: round32_0 round32_1 quotient_1_005)
  from interpolateEdge_terminates_count [OF q, of "[toMsg (Finite 7) (Finite 7)]"] q
  show ?thesis
    by simp
qed

subsection \<open>densify\<close>

lemma interpolate_route_edge_append:
  "interpolate_route_edge density ps e = ps @ interpolate_route_edge density [] e"
  unfolding interpolate_route_edge_def by (rule interpolateEdge_append)

lemma foldl_interpolate_append:
  "foldl (interpolate_route_edge density) ps es =
     ps @ foldl (interpolate_route_edge density) [] es"
proof (induction es arbitrary: ps)
  case Nil
  show ?case by simp
next
  case (Cons e es)
  have "foldl (interpolate_route_edge density) ps (e # es) =
          interpolate_route_edge density ps e @ foldl (interpolate_route_edge density) [] es"
    using Cons.IH [of "interpolate_route_edge density ps e"] by simp
  also have "\<dots> = ps @ interpolate_route_edge density [] e @
                      foldl (interpolate_route_edge density) [] es"
    by (subst interpolate_route_edge_append) simp
  also have "\<dots> = ps @ foldl (interpolate_route_edge density) [] (e # es)"
    using Cons.IH [of "interpolate_route_edge density [] e"] by simp
  finally show ?case .
qed

text \<open>
  Claim C2: when the rerouting state carries no partial edge, the last pose of the
  path that \<^verbatim>\<open>densify\<close> returns is the end of the route's last edge if the route
  has an edge, and a route without edges gives the one-pose path at the start node's
  coordinates.
\<close>

theorem densify_final_point:
  assumes "curr_edge rerouting_info = None"
  shows "(edges route \<noteq> [] \<longrightarrow>
            last (poses (densify density route rerouting_info frame now)) =
              toMsg (Finite (coord_x (coords (edge_end (last (edges route))))))
                    (Finite (coord_y (coords (edge_end (last (edges route)))))))
       \<and> (edges route = [] \<longrightarrow>
            poses (densify density route rerouting_info frame now) =
              [toMsg (Finite (coord_x (coords (start_node route))))
                     (Finite (coord_y (coords (start_node route))))])"
  using assms by (simp add: densify_def Let_def)

theorem densify_final_point_witness:
  "curr_edge \<lparr>curr_edge = None, closest_pt_on_edge = \<lparr>coord_x = 0, coord_y = 0\<rparr>\<rparr> = None
   \<and> last (poses (densify (Finite (13421773 / 268435456))
        \<lparr>start_node = example_node 1 1 0,
          edges = [example_edge 10 (example_node 1 1 0) (example_node 2 0 0)]\<rparr>
        \<lparr>curr_edge = None, closest_pt_on_edge = \<lparr>coord_x = 0, coord_y = 0\<rparr>\<rparr> ''map'' 0))
       = toMsg (Finite 0) (Finite 0)
   \<and> poses (densify (Finite (13421773 / 268435456))
        \<lparr>start_node = example_node 1 1 0, edges = []\<rparr>
        \<lparr>curr_edge = None, closest_pt_on_edge = \<lparr>coord_x = 0, coord_y = 0\<rparr>\<rparr> ''map'' 0)
       = [toMsg (Finite 1) (Finite 0)]"
  using densify_final_point [of "\<lparr>curr_edge = None, closest_pt_on_edge = \<lparr>coord_x = 0, coord_y = 0\<rparr>\<rparr>"
      "\<lparr>start_node = example_node 1 1 0,
          edges = [example_edge 10 (example_node 1 1 0) (example_node 2 0 0)]\<rparr>"
      "Finite (13421773 / 268435456)" "''map''" 0]
    densify_final_point [of "\<lparr>curr_edge = None, closest_pt_on_edge = \<lparr>coord_x = 0, coord_y = 0\<rparr>\<rparr>"
      "\<lparr>start_node = example_node 1 1 0, edges = []\<rparr>" "Finite (13421773 / 268435456)" "''map''" 0]
  by (simp add: example_node_def example_edge_def)

text \<open>
  Claim C3: when the rerouting state carries a current edge, the path that
  \<^verbatim>\<open>densify\<close> returns is the interpolation from the stored closest point on that
  edge to the edge's end node, followed by the whole path that the route gives
  without rerouting state; in particular its first pose is the stored closest point,
  not the route's start.
\<close>

theorem densify_resumes_partial_edge:
  assumes "curr_edge rerouting_info = Some e"
  shows "poses (densify density route rerouting_info frame now) =
           interpolateEdge density
             (Finite (coord_x (closest_pt_on_edge rerouting_info)))
             (Finite (coord_y (closest_pt_on_edge rerouting_info)))
             (Finite (coord_x (coords (edge_end e)))) (Finite (coord_y (coords (edge_end e)))) []
           @ poses (densify density route (rerouting_info\<lparr>curr_edge := None\<rparr>) frame now)
       \<and> hd (poses (densify density route rerouting_info frame now)) =
           toMsg (Finite (coord_x (closest_pt_on_edge rerouting_info)))
                 (Finite (coord_y (closest_pt_on_edge rerouting_info)))"
proof -
  let ?partial = "interpolateEdge density
             (Finite (coord_x (closest_pt_on_edge rerouting_info)))
             (Finite (coord_y (closest_pt_on_edge rerouting_info)))
             (Finite (coord_x (coords (edge_end e)))) (Finite (coord_y (coords (edge_end e)))) []"
  have split: "foldl (interpolate_route_edge density) ?partial (edges route) =
          ?partial @ foldl (interpolate_route_edge density) [] (edges route)"
    by (rule foldl_interpolate_append)
  have eq: "poses (densify density route rerouting_info frame now) =
          ?partial @ poses (densify density route (rerouting_info\<lparr>curr_edge := None\<rparr>) frame now)"
    using assms by (simp add: densify_def Let_def split)
  have "\<exists>rest. ?partial = toMsg (Finite (coord_x (closest_pt_on_edge rerouting_info)))
                 (Finite (coord_y (closest_pt_on_edge rerouting_info))) # rest"
    by (subst interpolateEdge_start) simp
  with eq show ?thesis
    by auto
qed

lemma upt2: "[0..<2] = [0, 1]"
  by (simp add: upt_rec)

theorem densify_resumes_partial_edge_witness:
  "curr_edge \<lparr>curr_edge = Some (example_edge 10 (example_node 1 0 0) (example_node 2 2 0)),
               closest_pt_on_edge = \<lparr>coord_x = 1, coord_y = 0\<rparr>\<rparr>
     = Some (example_edge 10 (example_node 1 0 0) (example_node 2 2 0))
   \<and> poses (densify (Finite (1 / 2))
        \<lparr>start_node = example_node 2 2 0,
          edges = [example_edge 11 (example_node 2 2 0) (example_node 3 2 1)]\<rparr>
        \<lparr>curr_edge = Some (example_edge 10 (example_node 1 0 0) (example_node 2 2 0)),
          closest_pt_on_edge = \<lparr>coord_x = 1, coord_y = 0\<rparr>\<rparr> ''map'' 0)
       = [toMsg (Finite 1) (Finite 0), toMsg (Finite (3 / 2)) (Finite 0),
          toMsg (Finite 2) (Finite 0), toMsg (Finite 2) (Finite (1 / 2)),
          toMsg (Finite 2) (Finite 1)]"
proof -
  let ?e = "example_edge 10 (example_node 1 0 0) (example_node 2 2 0)"
  let ?ri = "\<lparr>curr_edge = Some ?e, closest_pt_on_edge = \<lparr>coord_x = 1, coord_y = 0\<rparr>\<rparr>"
  let ?route = "\<lparr>start_node = example_node 2 2 0,
                  edges = [example_edge 11 (example_node 2 2 0) (example_node 3 2 1)]\<rparr>"
  have len1: "segment_length 1 0 2 0 = 1" and len2: "segment_length 2 0 2 1 = 1"
    by (simp_all add: segment_length_def euclid_def)
  have nr1: "no_rounding (1 / 2) 1 0 2 0"
    by (simp add: no_rounding_def len1 point_count_def Let_def upt2
        exact_def round32_0 round32_1 round32_2 round32_half round32_3_2)
  have nr2: "no_rounding (1 / 2) 2 0 2 1"
    by (simp add: no_rounding_def len2 point_count_def Let_def upt2
        exact_def round32_0 round32_1 round32_2 round32_half)
  have first: "interpolateEdge (Finite (1 / 2)) (Finite 1) (Finite 0) (Finite 2) (Finite 0) [] =
                 [toMsg (Finite 1) (Finite 0), toMsg (Finite (3 / 2)) (Finite 0)]"
    by (subst interpolateEdge_exact)
      (simp_all add: nr1 len1 evenly_spaced_def point_count_def Let_def upt2 point_pose_def)
  have second: "interpolateEdge (Finite (1 / 2)) (Finite 2) (Finite 0) (Finite 2) (Finite 1) [] =
                 [toMsg (Finite 2) (Finite 0), toMsg (Finite 2) (Finite (1 / 2))]"
    by (subst interpolateEdge_exact)
      (simp_all add: nr2 len2 evenly_spaced_def point_count_def Let_def upt2 point_pose_def)
  have plain: "poses (densify (Finite (1 / 2)) ?route (?ri\<lparr>curr_edge := None\<rparr>) ''map'' 0) =
                 [toMsg (Finite 2) (Finite 0), toMsg (Finite 2) (Finite (1 / 2)),
                  toMsg (Finite 2) (Finite 1)]"
    by (simp add: densify_def Let_def interpolate_route_edge_def example_node_def
        example_edge_def second)
  have "curr_edge ?ri = Some ?e"
    by simp
  from densify_resumes_partial_edge [OF this, of "Finite (1 / 2)" ?route "''map''" 0] plain first
  show ?thesis
    by (simp add: example_node_def example_edge_def)
qed

section \<open>Properties of the edge scorers\<close>

subsection \<open>Dynamic Adjustment\<close>

text \<open>
  Claim C4: the Dynamic Adjustment scorer reports not-traversable exactly when the
  edge's identifier is in the set of closed edges; for an edge that is not closed the
  score is the override cost if the identifier has one and 0 otherwise; and after a
  reopening that names the edge, the edge is traversable again, at that same cost.
\<close>

theorem adjust_score_closed_override:
  "(adjust_score st e = NotTraversable \<longleftrightarrow> edgeid e \<in> closed_edges st)
   \<and> (edgeid e \<notin> closed_edges st \<longrightarrow>
        adjust_score st e =
          (case dynamic_penalties st (edgeid e) of
             Some c \<Rightarrow> Traversable c
           | None \<Rightarrow> Traversable 0))
   \<and> (edgeid e \<in> set ids \<longrightarrow>
        adjust_score (open_edges ids st) e =
          (case dynamic_penalties st (edgeid e) of
             Some c \<Rightarrow> Traversable c
           | None \<Rightarrow> Traversable 0))"
  by (simp add: adjust_score_def open_edges_def split: option.splits)

lemma test_adjust_state_eval:
  "closed_edges test_adjust_state = {10}"
  "dynamic_penalties test_adjust_state = [11 \<mapsto> 42]"
  by (simp_all add: test_adjust_state_def adjust_edges_def set_costs_def open_edges_def
      close_edges_def initial_adjust_state_def)

theorem adjust_score_closed_override_witness:
  "fst (adjust_edges \<lparr>req_closed_edges = [10], req_opened_edges = [],
                       req_adjust_edges = [(11, 42)]\<rparr> initial_adjust_state)
   \<and> edgeid (example_edge 10 (example_node 1 1 0) (example_node 2 0 0))
         \<in> closed_edges test_adjust_state
   \<and> adjust_score test_adjust_state
         (example_edge 10 (example_node 1 1 0) (example_node 2 0 0)) = NotTraversable
   \<and> edgeid (example_edge 11 (example_node 1 1 0) (example_node 2 0 0))
         \<notin> closed_edges test_adjust_state
   \<and> adjust_score test_adjust_state
         (example_edge 11 (example_node 1 1 0) (example_node 2 0 0)) = Traversable 42
   \<and> edgeid (example_edge 10 (example_node 1 1 0) (example_node 2 0 0)) \<in> set [10]
   \<and> adjust_score (open_edges [10] test_adjust_state)
         (example_edge 10 (example_node 1 1 0) (example_node 2 0 0)) = Traversable 0"
  using adjust_score_closed_override
      [of test_adjust_state "example_edge 10 (example_node 1 1 0) (example_node 2 0 0)" "[10]"]
    adjust_score_closed_override
      [of test_adjust_state "example_edge 11 (example_node 1 1 0) (example_node 2 0 0)" "[]"]
  by (simp add: test_adjust_state_eval example_edge_def adjust_edges_def)

subsection \<open>Time\<close>

text \<open>
  Claim C5: the Time Scorer takes \<open>abs_time_taken\<close> as the cost when the edge
  metadata has it; without it the cost is the Euclidean length divided by
  \<open>abs_speed_limit\<close> when that key is present and by the configured default maximum
  speed when it is not; and storing \<open>abs_time_taken\<close> on top of any other metadata
  makes the measured time the cost again.
\<close>

theorem time_score_priority:
  "(getFloat (edge_metadata e) ''abs_time_taken'' = Some t \<longrightarrow>
      time_score max_speed e = Traversable t)
   \<and> (getFloat (edge_metadata e) ''abs_time_taken'' = None \<longrightarrow>
        getFloat (edge_metadata e) ''abs_speed_limit'' = Some v \<longrightarrow>
        time_score max_speed e = Traversable (edge_length e / v))
   \<and> (getFloat (edge_metadata e) ''abs_time_taken'' = None \<longrightarrow>
        getFloat (edge_metadata e) ''abs_speed_limit'' = None \<longrightarrow>
        time_score max_speed e = Traversable (edge_length e / max_speed))
   \<and> time_score max_speed
         (e\<lparr>edge_metadata := (edge_metadata e)(''abs_time_taken'' \<mapsto> MFloat t)\<rparr>) =
       Traversable t"
  by (simp add: time_score_def getFloat_def)

lemma time_test_edge_length: "edge_length (time_test_edge m) = 1"
  by (simp add: edge_length_def time_test_edge_def example_node_def)

theorem time_score_priority_witness:
  "getFloat (edge_metadata (time_test_edge [''abs_time_taken'' \<mapsto> MFloat 10]))
       ''abs_time_taken'' = Some 10
   \<and> time_score (1 / 2) (time_test_edge [''abs_time_taken'' \<mapsto> MFloat 10]) = Traversable 10
   \<and> getFloat (edge_metadata (time_test_edge Map.empty)) ''abs_time_taken'' = None
   \<and> getFloat (edge_metadata (time_test_edge Map.empty)) ''abs_speed_limit'' = None
   \<and> time_score (1 / 2) (time_test_edge Map.empty) = Traversable 2
   \<and> getFloat (edge_metadata (time_test_edge [''abs_speed_limit'' \<mapsto> MFloat (17 / 20)]))
       ''abs_time_taken'' = None
   \<and> getFloat (edge_metadata (time_test_edge [''abs_speed_limit'' \<mapsto> MFloat (17 / 20)]))
       ''abs_speed_limit'' = Some (17 / 20)
   \<and> time_score (1 / 2) (time_test_edge [''abs_speed_limit'' \<mapsto> MFloat (17 / 20)]) =
       Traversable (20 / 17)
   \<and> time_score (1 / 2)
        ((time_test_edge [''abs_speed_limit'' \<mapsto> MFloat (17 / 20)])
           \<lparr>edge_metadata :=
              (edge_metadata (time_test_edge [''abs_speed_limit'' \<mapsto> MFloat (17 / 20)]))
                (''abs_time_taken'' \<mapsto> MFloat 10)\<rparr>) = Traversable 10"
proof -
  have meta: "edge_metadata (time_test_edge m) = m" for m
    by (simp add: time_test_edge_def)
  show ?thesis
    using
      time_score_priority [of "time_test_edge [''abs_time_taken'' \<mapsto> MFloat 10]" 10 "1 / 2" 0]
      time_score_priority [of "time_test_edge Map.empty" 0 "1 / 2" 0]
      time_score_priority
        [of "time_test_edge [''abs_speed_limit'' \<mapsto> MFloat (17 / 20)]" 10 "1 / 2" "17 / 20"]
    by (simp add: meta getFloat_def time_test_edge_length)
qed

subsection \<open>Semantic, value mode\<close>

text \<open>
  Claim C7: in value mode (semantic key \<open>class\<close>) the Semantic Scorer always
  reports traversable, with cost the sum of two independent contributions, one for the
  edge's metadata and one for the end node's: the configured weight of the class stored
  under the key \<open>class\<close>, or nothing when there is no such value or the class is not
  in the table. The same known class on both counts its weight twice, and when neither
  resolves the cost is 0.
\<close>

theorem semantic_score_value_mode:
  assumes "semantic_key cfg = ''class''"
  shows "semantic_score cfg e =
           Traversable
             ((case getString (edge_metadata e) ''class'' of
                 Some c \<Rightarrow> class_weight (semantic_classes cfg) c | None \<Rightarrow> 0)
              + (case getString (node_metadata (edge_end e)) ''class'' of
                   Some c \<Rightarrow> class_weight (semantic_classes cfg) c | None \<Rightarrow> 0))
       \<and> (getString (edge_metadata e) ''class'' = Some c \<longrightarrow>
            getString (node_metadata (edge_end e)) ''class'' = Some c \<longrightarrow>
            map_of (semantic_classes cfg) c = Some w \<longrightarrow>
            semantic_score cfg e = Traversable (w + w))
       \<and> (map_of (semantic_classes cfg) c = None \<longrightarrow> class_weight (semantic_classes cfg) c = 0)
       \<and> (getString (edge_metadata e) ''class'' = None \<longrightarrow>
            getString (node_metadata (edge_end e)) ''class'' = None \<longrightarrow>
            semantic_score cfg e = Traversable 0)"
  using assms by (simp add: semantic_score_def metadataValueScorer_def class_weight_def)

theorem semantic_score_value_mode_witness:
  "semantic_key test_semantic_config = ''class''
   \<and> semantic_score test_semantic_config (semantic_test_edge Map.empty Map.empty) = Traversable 0
   \<and> semantic_score test_semantic_config
        (semantic_test_edge [''class'' \<mapsto> MString ''Test1''] Map.empty) = Traversable 1
   \<and> semantic_score test_semantic_config
        (semantic_test_edge [''class'' \<mapsto> MString ''Test2''] [''class'' \<mapsto> MString ''Test2''])
       = Traversable 4
   \<and> semantic_score test_semantic_config
        (semantic_test_edge [''class'' \<mapsto> MString ''Test4''] [''class'' \<mapsto> MString ''Test4''])
       = Traversable 0"
proof -
  have key: "semantic_key test_semantic_config = ''class''"
    by (simp add: test_semantic_config_def)
  have table: "semantic_classes test_semantic_config =
                 [(''Test'', 0), (''Test1'', 1), (''Test2'', 2)]"
    by (simp add: test_semantic_config_def)
  show ?thesis
    using key
      semantic_score_value_mode [OF key, of "semantic_test_edge Map.empty Map.empty" "''Test''" 0]
      semantic_score_value_mode [OF key,
        of "semantic_test_edge [''class'' \<mapsto> MString ''Test1''] Map.empty" "''Test1''" 1]
      semantic_score_value_mode [OF key,
        of "semantic_test_edge [''class'' \<mapsto> MString ''Test2''] [''class'' \<mapsto> MString ''Test2'']"
           "''Test2''" 2]
      semantic_score_value_mode [OF key,
        of "semantic_test_edge [''class'' \<mapsto> MString ''Test4''] [''class'' \<mapsto> MString ''Test4'']"
           "''Test4''" 0]
    by (simp add: table semantic_test_edge_def getString_def class_weight_def)
qed

subsection \<open>Construction of the composite engine\<close>

lemma load_plugins_length:
  "load_plugins registry cfgs = Inr ps \<Longrightarrow> length ps = length cfgs"
  by (induction cfgs arbitrary: ps) (auto split: option.splits sum.splits)

lemma load_plugins_unresolved:
  "\<exists>c \<in> set cfgs. registry (plugin_type c) = None \<Longrightarrow>
     \<exists>name. load_plugins registry cfgs = Inl (ConfigurationError name)"
proof (induction cfgs)
  case Nil
  then show ?case by simp
next
  case (Cons c cs)
  show ?case
  proof (cases "registry (plugin_type c)")
    case None
    then show ?thesis by simp
  next
    case (Some f)
    with Cons.prems have "\<exists>c \<in> set cs. registry (plugin_type c) = None"
      by auto
    then obtain name where "load_plugins registry cs = Inl (ConfigurationError name)"
      using Cons.IH by blast
    with Some show ?thesis by simp
  qed
qed

lemma load_plugins_resolved:
  "\<forall>c \<in> set cfgs. registry (plugin_type c) \<noteq> None \<Longrightarrow> \<exists>ps. load_plugins registry cfgs = Inr ps"
  by (induction cfgs) auto

text \<open>
  Claim C8: construction of the engine fails with a configuration error whenever one
  of the configured plugins cannot be resolved by the registry, succeeds when all of
  them resolve, and on success \<open>numPlugins\<close> is the number of configured plugins.
\<close>

theorem load_plugins_fails_or_counts:
  "((\<exists>c \<in> set cfgs. registry (plugin_type c) = None) \<longrightarrow>
      (\<exists>name. load_plugins registry cfgs = Inl (ConfigurationError name)))
   \<and> ((\<forall>c \<in> set cfgs. registry (plugin_type c) \<noteq> None) \<longrightarrow>
        (\<exists>ps. load_plugins registry cfgs = Inr ps))
   \<and> (load_plugins registry cfgs = Inr ps \<longrightarrow> numPlugins ps = length cfgs)"
  using load_plugins_unresolved [of cfgs registry] load_plugins_resolved [of cfgs registry]
    load_plugins_length [of registry cfgs ps]
  by (simp add: numPlugins_def)

lemma default_load:
  "load_plugins default_registry default_edge_cost_functions =
     Inr [\<lparr>loaded_name = ''DistanceScorer'', loaded_weight = 1, loaded_score = distance_score\<rparr>,
          \<lparr>loaded_name = ''AdjustEdgesScorer'', loaded_weight = 1,
            loaded_score = adjust_score initial_adjust_state\<rparr>]"
  by (simp add: default_registry_def default_edge_cost_functions_def)

theorem load_plugins_fails_or_counts_witness:
  "(\<exists>c \<in> set fake_edge_cost_functions. default_registry (plugin_type c) = None)
   \<and> load_plugins default_registry fake_edge_cost_functions = Inl (ConfigurationError ''FakeScorer'')
   \<and> list_all (\<lambda>c. default_registry (plugin_type c) \<noteq> None) default_edge_cost_functions
   \<and> (\<exists>ps. load_plugins default_registry default_edge_cost_functions = Inr ps \<and> numPlugins ps = 2)"
proof -
  have fake: "\<exists>c \<in> set fake_edge_cost_functions. default_registry (plugin_type c) = None"
    by (simp add: fake_edge_cost_functions_def default_registry_def)
  have dflt: "\<forall>c \<in> set default_edge_cost_functions. default_registry (plugin_type c) \<noteq> None"
    by (simp add: default_edge_cost_functions_def default_registry_def)
  have len: "length default_edge_cost_functions = 2"
    by (simp add: default_edge_cost_functions_def)
  have "load_plugins default_registry fake_edge_cost_functions =
          Inl (ConfigurationError ''FakeScorer'')"
    by (simp add: fake_edge_cost_functions_def default_registry_def)
  moreover from dflt load_plugins_fails_or_counts [of default_edge_cost_functions default_registry]
  obtain ps where ps: "load_plugins default_registry default_edge_cost_functions = Inr ps"
    by blast
  with load_plugins_fails_or_counts [of default_edge_cost_functions default_registry ps] len
  have "numPlugins ps = 2"
    by simp
  ultimately show ?thesis
    using fake dflt ps by (simp add: list_all_iff)
qed

text \<open>
  The default engine of \<^verbatim>\<open>test_api\<close>, Distance and Dynamic Adjustment with weight 1,
  scores an open edge without metadata at its length.
\<close>

lemma default_engine_score:
  assumes "load_plugins default_registry default_edge_cost_functions = Inr ps"
    and "edge_metadata e = Map.empty"
  shows "engine_score ps e = Traversable (edge_length e)"
  using assms
  by (auto simp: default_load distance_score_def getFloat_def adjust_score_def
      initial_adjust_state_def)

subsection \<open>Further expectations of the tests\<close>

text \<open>
  The models also give the values that \<^verbatim>\<open>test_api\<close> (speed limit 0.8 on an edge
  of length 1), \<^verbatim>\<open>test_penalty_scoring\<close> and \<^verbatim>\<open>test_semantic_scoring_keys\<close>
  expect, and the reopening request of \<^verbatim>\<open>test_invalid_edge_scoring\<close> is the
  reopening of edge 10. An engine configured with one scorer of any of the six kinds
  has one plugin, and the engine of \<^verbatim>\<open>test_costmap_scoring\<close> rejects an edge as
  long as no costmap has arrived.
\<close>

lemma test_api_speed_limit:
  "distance_score (time_test_edge [''speed_limit'' \<mapsto> MFloat (4 / 5)]) = Traversable (5 / 4)"
proof -
  have "edge_metadata (time_test_edge [''speed_limit'' \<mapsto> MFloat (4 / 5)]) =
          [''speed_limit'' \<mapsto> MFloat (4 / 5)]"
    by (simp add: time_test_edge_def)
  then show ?thesis
    by (simp add: distance_score_def getFloat_def time_test_edge_length)
qed

lemma test_penalty_scoring:
  "penalty_score (time_test_edge [''penalty'' \<mapsto> MFloat 10]) = Traversable 10"
  by (simp add: penalty_score_def getFloat_def time_test_edge_def)

lemma test_semantic_scoring_keys:
  "semantic_score (test_semantic_config\<lparr>semantic_key := []\<rparr>)
     (semantic_test_edge [''class'' \<mapsto> MString ''Test1''] Map.empty) = Traversable 0"
  "semantic_score (test_semantic_config\<lparr>semantic_key := []\<rparr>)
     (semantic_test_edge [''class'' \<mapsto> MString ''Test1'', ''Test2'' \<mapsto> MString ''Test2'']
        [''Test2'' \<mapsto> MString ''Test2'']) = Traversable 4"
  "semantic_score (test_semantic_config\<lparr>semantic_key := []\<rparr>)
     (semantic_test_edge [''Test4'' \<mapsto> MString ''Test4''] Map.empty) = Traversable 0"
  by (simp_all add: semantic_score_def metadataKeyScorer_def test_semantic_config_def
      semantic_test_edge_def)

lemma test_reopen_request:
  "snd (adjust_edges \<lparr>req_closed_edges = [], req_opened_edges = [10], req_adjust_edges = []\<rparr>
          test_adjust_state) = open_edges [10] test_adjust_state"
  by (simp add: adjust_edges_def set_costs_def close_edges_def)

lemma test_single_plugin:
  assumes "name \<in> {''DistanceScorer'', ''PenaltyScorer'', ''TimeScorer'', ''SemanticScorer'',
                    ''CostmapScorer'', ''AdjustEdgesScorer''}"
  shows "\<exists>ps. load_plugins default_registry (single_edge_cost_function name) = Inr ps
              \<and> numPlugins ps = 1"
  using assms by (auto simp: single_edge_cost_function_def default_registry_def numPlugins_def)

lemma test_costmap_scoring_no_costmap:
  assumes "load_plugins default_registry (single_edge_cost_function ''CostmapScorer'') = Inr ps"
  shows "engine_score ps e = NotTraversable"
  using assms
  by (auto simp: single_edge_cost_function_def default_registry_def costmap_score_def
      default_costmap_config_def)


end
